theory Spec2Isabelle
  imports Main "HOL-Library.Sublist" "HOL-Library.AList"
begin

section \<open>Python strings and paths\<close>

text \<open>
  A Python \<open>str\<close> is a sequence of Unicode code points, so it is modelled as a list of
  natural numbers: \<open>s[:100]\<close> is \<open>take 100 s\<close> and counts code points, as Python does.
  ASCII literals of the source are written \<open>ascii ''...''\<close>; the Chinese literals are
  given by their code points.
\<close>

type_synonym ustr = "nat list"

type_synonym path = ustr

definition ascii :: "string \<Rightarrow> ustr" where
  "ascii s = map of_char s"

definition chr_slash :: nat where
  "chr_slash = 47"

definition chr_dot :: nat where
  "chr_dot = 46"

text \<open>\<open>str.isspace\<close> for one character: the code points Python treats as whitespace.\<close>

definition py_isspace :: "nat \<Rightarrow> bool" where
  "py_isspace c =
     (c \<in> set ([9, 10, 11, 12, 13, 28, 29, 30, 31, 32, 133, 160, 5760] @ [8192 ..< 8203]
               @ [8232, 8233, 8239, 8287, 12288]))"

text \<open>\<open>s.strip()\<close>: leading and trailing whitespace removed.\<close>

definition py_strip :: "ustr \<Rightarrow> ustr" where
  "py_strip s = rev (dropWhile py_isspace (rev (dropWhile py_isspace s)))"

text \<open>
  \<open>s.lower()\<close> on the ASCII letters. Outside ASCII the model leaves a character as it is,
  where Python may change it. The program only compares lowered strings with the ASCII
  extensions \<open>.wav\<close>, \<open>.mp3\<close>, \<open>.m4a\<close>, \<open>.flac\<close>, \<open>.ogg\<close> and \<open>.aac\<close>; the only characters
  outside ASCII that Python lowers to ASCII letters are U+0130 and U+212A, which give \<open>i\<close>
  and \<open>k\<close>, so each of these comparisons has the outcome it has in Python.
\<close>

definition py_lower :: "ustr \<Rightarrow> ustr" where
  "py_lower s = map (\<lambda>c. if 65 \<le> c \<and> c \<le> 90 then c + 32 else c) s"

text \<open>\<open>s.endswith(t)\<close>.\<close>

definition endswith :: "ustr \<Rightarrow> ustr \<Rightarrow> bool" where
  "endswith s t = suffix t s"

text \<open>\<open>t in s\<close> for two strings: \<open>t\<close> occurs in \<open>s\<close> as a contiguous run.\<close>

fun str_contains :: "ustr \<Rightarrow> ustr \<Rightarrow> bool" where
  "str_contains [] t = (t = [])"
| "str_contains (c # s) t = (prefix t (c # s) \<or> str_contains s t)"

text \<open>\<open>s.rfind(c)\<close> for a single character: the last index of \<open>c\<close>, or \<open>-1\<close>.\<close>

definition rfind :: "ustr \<Rightarrow> nat \<Rightarrow> int" where
  "rfind s c =
     (if c \<in> set s then int (length s) - 1 - int (length (takeWhile (\<lambda>x. x \<noteq> c) (rev s)))
      else - 1)"

text \<open>\<open>os.path.basename\<close> (POSIX): what follows the last slash.\<close>

definition basename :: "path \<Rightarrow> ustr" where
  "basename p = drop (nat (rfind p chr_slash + 1)) p"

text \<open>
  \<open>os.path.splitext\<close> (POSIX): the extension starts at the last dot, provided that dot comes
  after the last slash and some character between the two is not a dot.
\<close>

definition splitext :: "path \<Rightarrow> ustr \<times> ustr" where
  "splitext p =
     (let sepIndex = rfind p chr_slash; dotIndex = rfind p chr_dot
      in if dotIndex > sepIndex
            \<and> (\<exists>i \<in> set [nat (sepIndex + 1) ..< nat dotIndex]. p ! i \<noteq> chr_dot)
         then (take (nat dotIndex) p, drop (nat dotIndex) p)
         else (p, []))"

text \<open>\<open>os.path.join\<close> (POSIX) of two components.\<close>

definition join :: "path \<Rightarrow> ustr \<Rightarrow> path" where
  "join a b =
     (if prefix [chr_slash] b then b
      else if a = [] \<or> suffix [chr_slash] a then a @ b
      else a @ [chr_slash] @ b)"

text \<open>A path lies in the tree rooted at directory \<open>d\<close>.\<close>

definition in_tree :: "path \<Rightarrow> path \<Rightarrow> bool" where
  "in_tree d p = (p = d \<or> prefix (d @ [chr_slash]) p)"

text \<open>The proper ancestors of a path, which \<open>os.makedirs\<close> creates along with it.\<close>

definition ancestors :: "path \<Rightarrow> path list" where
  "ancestors p = map (\<lambda>i. take i p) (filter (\<lambda>i. p ! i = chr_slash) [1 ..< length p])"

section \<open>Python values and exceptions\<close>

text \<open>
  The values that cross the boundary with the language-model service and the JSON parser.
  \<open>PObj\<close> is an object that is not a \<open>dict\<close> but answers \<open>in\<close> and subscription by key,
  such as a typed response object; it carries its fields. Floating-point numbers are left
  out: nothing in the program looks inside a parsed value.
\<close>

datatype pyval =
    PNone
  | PBool bool
  | PInt int
  | PStr ustr
  | PList "pyval list"
  | PDict "(ustr \<times> pyval) list"
  | PObj "(ustr \<times> pyval) list"

type_synonym pydict = "(ustr \<times> pyval) list"

text \<open>
  Exception classes, all below \<open>Exception\<close>; the constructor \<open>Exception\<close> stands for every
  class not related to the others. \<open>KeyboardInterrupt\<close> and \<open>SystemExit\<close>, which are not
  failures of a stage and which no handler of the program catches, are outside the model.
\<close>

datatype exc_class =
    Exception
  | OSError
  | FileNotFoundError
  | PermissionError
  | ValueError
  | UnicodeDecodeError
  | JSONDecodeError
  | ImportError
  | TypeError
  | KeyError
  | UnboundLocalError

fun is_subclass :: "exc_class \<Rightarrow> exc_class \<Rightarrow> bool" where
  "is_subclass c Exception = True"
| "is_subclass FileNotFoundError OSError = True"
| "is_subclass PermissionError OSError = True"
| "is_subclass UnicodeDecodeError ValueError = True"
| "is_subclass JSONDecodeError ValueError = True"
| "is_subclass c d = (c = d)"

text \<open>
  The bytes captured from the standard error of a child process: either they decode as
  UTF-8 to a text, or \<open>bytes.decode()\<close> raises \<open>UnicodeDecodeError\<close> on them.
\<close>

datatype stderr_bytes = Utf8Bytes ustr | InvalidUtf8

text \<open>
  An exception carries its class and its \<open>str()\<close>. \<open>subprocess.CalledProcessError\<close> also
  carries the captured standard error; it is raised by \<open>subprocess.run(check=True)\<close> only.
\<close>

datatype exc =
    Exc exc_class ustr
  | CalledProcessError stderr_bytes ustr

text \<open>What an external capability raises: a class and a message.\<close>

type_synonym lib_error = "exc_class \<times> ustr"

fun isinstance :: "exc \<Rightarrow> exc_class \<Rightarrow> bool" where
  "isinstance (Exc c m) k = is_subclass c k"
| "isinstance (CalledProcessError b m) k = (k = Exception)"

fun str_exc :: "exc \<Rightarrow> ustr" where
  "str_exc (Exc c m) = m"
| "str_exc (CalledProcessError b m) = m"

text \<open>Faults raised by the interpreter itself; their wording is the interpreter's.\<close>

datatype fault =
    NotIterable pyval
  | NotSubscriptable pyval
  | NoItemAssignment pyval
  | MissingKey ustr
  | UnboundLocal ustr
  | Undecodable
  | NoSuchFile path
  | DirectoryNotEmpty path

section \<open>The world: file system, trace, capabilities\<close>

text \<open>
  Every observable action is appended to the trace: file-system operations, calls of the
  external capabilities, and calls of \<open>analyze_text\<close> and \<open>perform_full_audio_audit\<close>
  (what a call-count assertion on a mock observes). Output printed to the console is not
  modelled.
\<close>

datatype event =
    MkTempDir path
  | RmTempDir path
  | OsPathExists path
  | OsMakedirs path
  | OsRemove path
  | RunFfmpeg path path
  | TorchaudioLoad path
  | TensorMean
  | Denoise
  | Enhance
  | PeakCheck
  | TorchaudioSave path
  | WhisperTranscribe path
  | CallAnalyzeText ustr
  | OllamaGenerate ustr ustr
  | SaveUpload path
  | ExtractAll path path
  | OsWalk path
  | CallAudit path
  | ShutilRmtree path

record state =
  fs :: "path set"
  trace :: "event list"

text \<open>A waveform tensor is opaque to the program; it is only handed between capabilities.\<close>

datatype tensor = Tensor nat

datatype ffmpeg_outcome =
    Completed
  | NonZeroExit stderr_bytes ustr
  | NotStarted lib_error

text \<open>
  The behaviour of everything outside the program. Each capability either returns or
  raises; \<open>os.remove\<close> can only raise \<open>OSError\<close>. Four fields describe the temporary
  directory of \<open>tempfile.TemporaryDirectory\<close>: whether \<open>mkdtemp\<close> fails; the order in which
  the cleanup meets the entries of the directory (of a listing that misses an entry, that
  entry stays, and the directory cannot be removed); for each entry, whether unlinking it
  fails even after the library has tried to repair its permissions; and whether removing
  the emptied directory fails.
\<close>

record env =
  tmpdir_name :: path
  mkdtemp_error :: "lib_error option"
  cleanup_listing :: "path \<Rightarrow> path list"
  cleanup_unlink_error :: "path \<Rightarrow> lib_error option"
  cleanup_rmdir_error :: "path \<Rightarrow> lib_error option"
  uuid_enhanced :: ustr
  uuid_conversion :: ustr
  os_makedirs_error :: "path \<Rightarrow> lib_error option"
  os_remove_error :: "path \<Rightarrow> ustr option"
  run_ffmpeg :: "path \<Rightarrow> path \<Rightarrow> ffmpeg_outcome"
  ffmpeg_leaves_output :: "path \<Rightarrow> path \<Rightarrow> bool"
  torchaudio_load :: "path \<Rightarrow> lib_error + tensor \<times> nat"
  tensor_mean :: "tensor \<Rightarrow> lib_error + tensor"
  denoise :: "tensor \<Rightarrow> nat \<Rightarrow> ustr \<Rightarrow> lib_error + tensor \<times> nat"
  enhance :: "tensor \<Rightarrow> nat \<Rightarrow> ustr \<Rightarrow> lib_error + tensor \<times> nat"
  peak_below_threshold :: "tensor \<Rightarrow> lib_error + bool"
  torchaudio_save :: "path \<Rightarrow> tensor \<Rightarrow> nat \<Rightarrow> lib_error option"
  save_leaves_output :: "path \<Rightarrow> bool"
  whisper_transcribe :: "path \<Rightarrow> lib_error + ustr list"
  ollama_generate :: "ustr \<Rightarrow> ustr \<Rightarrow> lib_error + pyval"
  json_loads :: "ustr \<Rightarrow> lib_error + pyval"
  py_str :: "pyval \<Rightarrow> ustr"
  fault_text :: "fault \<Rightarrow> ustr"

text \<open>The module-level names of \<open>audit_processing.py\<close>; \<open>True\<close> means "is not \<open>None\<close>".\<close>

record globals =
  heavy_libs_successfully_imported :: bool
  torch :: bool
  torchaudio :: bool
  WhisperModel :: bool
  denoise_func :: bool
  enhance_func :: bool
  WHISPER_MODEL_INSTANCE :: bool
  ollama :: bool
  DEVICE :: ustr

definition OLLAMA_MODEL_NAME :: ustr where
  "OLLAMA_MODEL_NAME = ascii ''deepseek-r1:14b''"

section \<open>Programs: state passing with exceptions\<close>

type_synonym 'a prog = "state \<Rightarrow> (exc + 'a) \<times> state"

definition ret :: "'a \<Rightarrow> 'a prog" where
  "ret x = (\<lambda>s. (Inr x, s))"

definition raise :: "exc \<Rightarrow> 'a prog" where
  "raise e = (\<lambda>s. (Inl e, s))"

definition andthen :: "'a prog \<Rightarrow> ('a \<Rightarrow> 'b prog) \<Rightarrow> 'b prog" where
  "andthen m f = (\<lambda>s. case m s of (Inl e, s') \<Rightarrow> (Inl e, s') | (Inr x, s') \<Rightarrow> f x s')"

text \<open>\<open>try: m except: h\<close>; the handler re-raises what its clauses do not match.\<close>

definition try_except :: "'a prog \<Rightarrow> (exc \<Rightarrow> 'a prog) \<Rightarrow> 'a prog" where
  "try_except m h = (\<lambda>s. case m s of (Inl e, s') \<Rightarrow> h e s' | (Inr x, s') \<Rightarrow> (Inr x, s'))"

text \<open>\<open>try: x = m except: h else: f\<close>, where \<open>f\<close> runs outside the reach of the handler.\<close>

definition try_except_else :: "'a prog \<Rightarrow> (exc \<Rightarrow> 'b prog) \<Rightarrow> ('a \<Rightarrow> 'b prog) \<Rightarrow> 'b prog" where
  "try_except_else m h f = (\<lambda>s. case m s of (Inl e, s') \<Rightarrow> h e s' | (Inr x, s') \<Rightarrow> f x s')"

text \<open>\<open>try: m finally: c\<close>; an exception of the cleanup replaces the result.\<close>

definition try_finally :: "'a prog \<Rightarrow> unit prog \<Rightarrow> 'a prog" where
  "try_finally m c =
     (\<lambda>s. case m s of (r, s') \<Rightarrow>
        (case c s' of (Inl e, s'') \<Rightarrow> (Inl e, s'') | (Inr u, s'') \<Rightarrow> (r, s'')))"

definition emit :: "event \<Rightarrow> state \<Rightarrow> state" where
  "emit ev s = s\<lparr>trace := trace s @ [ev]\<rparr>"

text \<open>Entering a function whose calls are counted.\<close>

definition announce :: "event \<Rightarrow> unit prog" where
  "announce ev = (\<lambda>s. (Inr (), emit ev s))"

text \<open>A call of a capability that does not change the file system.\<close>

definition call :: "event \<Rightarrow> lib_error + 'a \<Rightarrow> 'a prog" where
  "call ev r = (\<lambda>s. (case r of Inl (c, m) \<Rightarrow> Inl (Exc c m) | Inr x \<Rightarrow> Inr x, emit ev s))"

definition os_path_exists :: "path \<Rightarrow> bool prog" where
  "os_path_exists p = (\<lambda>s. (Inr (p \<in> fs s), emit (OsPathExists p) s))"

text \<open>
  \<open>os.makedirs(p, exist_ok=True)\<close>. Whether the call fails is the world's to say, also for
  a path that exists: the file system of the model does not tell a directory from a
  regular file, and on a regular file the call raises \<open>FileExistsError\<close>. A call that
  succeeds on an existing path changes nothing.
\<close>

definition os_makedirs :: "env \<Rightarrow> path \<Rightarrow> unit prog" where
  "os_makedirs E p =
     (\<lambda>s. case os_makedirs_error E p of
             Some (c, m) \<Rightarrow> (Inl (Exc c m), emit (OsMakedirs p) s)
           | None \<Rightarrow>
               (Inr (),
                emit (OsMakedirs p)
                  (if p \<in> fs s then s else s\<lparr>fs := fs s \<union> {p} \<union> set (ancestors p)\<rparr>)))"

text \<open>\<open>os.remove(p)\<close>.\<close>

definition os_remove :: "env \<Rightarrow> path \<Rightarrow> unit prog" where
  "os_remove E p =
     (\<lambda>s. if p \<notin> fs s
           then (Inl (Exc FileNotFoundError (fault_text E (NoSuchFile p))), emit (OsRemove p) s)
           else (case os_remove_error E p of
                   Some m \<Rightarrow> (Inl (Exc OSError m), emit (OsRemove p) s)
                 | None \<Rightarrow> (Inr (), emit (OsRemove p) (s\<lparr>fs := fs s - {p}\<rparr>))))"

text \<open>
  \<open>with tempfile.TemporaryDirectory(prefix="audio_audit_") as temp_dir: body\<close>.

  The constructor calls \<open>mkdtemp\<close>, which creates the directory or raises; nothing of the
  statement runs after a failure. \<open>enter_temporary_directory\<close> is the state in which the
  body starts once the directory has been created.
\<close>

definition enter_temporary_directory :: "env \<Rightarrow> state \<Rightarrow> state" where
  "enter_temporary_directory E s =
     emit (MkTempDir (tmpdir_name E)) (s\<lparr>fs := fs s \<union> {tmpdir_name E}\<rparr>)"

definition tempfile_mkdtemp :: "env \<Rightarrow> path prog" where
  "tempfile_mkdtemp E =
     (\<lambda>s. case mkdtemp_error E of
             Some (c, m) \<Rightarrow> (Inl (Exc c m), emit (MkTempDir (tmpdir_name E)) s)
           | None \<Rightarrow> (Inr (tmpdir_name E), enter_temporary_directory E s))"

text \<open>
  On exit, however the body ended, \<open>cleanup\<close> removes the tree with \<open>shutil.rmtree\<close>: it
  unlinks the entries one after the other, in the order in which it meets them, and
  raises the first failure that it cannot repair, leaving that entry, the entries not yet
  visited and the directory in place.
\<close>

definition rmtree_unlink :: "env \<Rightarrow> path \<Rightarrow> unit prog" where
  "rmtree_unlink E p =
     (\<lambda>s. case cleanup_unlink_error E p of
             Some (c, m) \<Rightarrow> (Inl (Exc c m), s)
           | None \<Rightarrow> (Inr (), s\<lparr>fs := fs s - {p}\<rparr>))"

fun rmtree_entries :: "env \<Rightarrow> path list \<Rightarrow> unit prog" where
  "rmtree_entries E [] = ret ()"
| "rmtree_entries E (p # ps) = andthen (rmtree_unlink E p) (\<lambda>u. rmtree_entries E ps)"

text \<open>Then the directory itself is removed, which fails while an entry is left in it.\<close>

definition os_rmdir :: "env \<Rightarrow> path \<Rightarrow> unit prog" where
  "os_rmdir E d =
     (\<lambda>s. if \<exists>p \<in> fs s. in_tree d p \<and> p \<noteq> d
           then (Inl (Exc OSError (fault_text E (DirectoryNotEmpty d))), s)
           else (case cleanup_rmdir_error E d of
                   Some (c, m) \<Rightarrow> (Inl (Exc c m), s)
                 | None \<Rightarrow> (Inr (), s\<lparr>fs := fs s - {d}\<rparr>)))"

definition exit_temporary_directory :: "env \<Rightarrow> path \<Rightarrow> unit prog" where
  "exit_temporary_directory E d =
     andthen
       (\<lambda>s. rmtree_entries E
              (filter (\<lambda>p. p \<in> fs s \<and> in_tree d p \<and> p \<noteq> d) (cleanup_listing E d))
              (emit (RmTempDir d) s))
       (\<lambda>u. os_rmdir E d)"

text \<open>
  The statement as a whole. It is not inside any \<open>try\<close> of the program: an exception of
  \<open>mkdtemp\<close> reaches the caller, and an exception of the cleanup replaces whatever the
  body returned or raised.
\<close>

definition with_temporary_directory :: "env \<Rightarrow> (path \<Rightarrow> 'a prog) \<Rightarrow> 'a prog" where
  "with_temporary_directory E body =
     andthen (tempfile_mkdtemp E) (\<lambda>temp_dir.
       try_finally (body temp_dir) (exit_temporary_directory E temp_dir))"

section \<open>\<open>audit_processing.py\<close>\<close>

subsection \<open>Helpers shared by the stages\<close>

text \<open>\<open>subprocess.run(["ffmpeg", "-y", "-i", src, "-ar", "16000", "-ac", "1", dst],
  check=True, capture_output=True)\<close>: a run that exits with a non-zero status raises
  \<open>CalledProcessError\<close>, and may or may not have left its output file.\<close>

definition subprocess_run_ffmpeg :: "env \<Rightarrow> path \<Rightarrow> path \<Rightarrow> unit prog" where
  "subprocess_run_ffmpeg E src dst =
     (\<lambda>s. case run_ffmpeg E src dst of
             Completed \<Rightarrow> (Inr (), emit (RunFfmpeg src dst) (s\<lparr>fs := fs s \<union> {dst}\<rparr>))
           | NonZeroExit b m \<Rightarrow>
               (Inl (CalledProcessError b m),
                emit (RunFfmpeg src dst)
                  (if ffmpeg_leaves_output E src dst then s\<lparr>fs := fs s \<union> {dst}\<rparr> else s))
           | NotStarted (c, m) \<Rightarrow> (Inl (Exc c m), emit (RunFfmpeg src dst) s))"

text \<open>\<open>torchaudio.save(p, w.unsqueeze(0).to(torch.float32), sr)\<close>.\<close>

definition torchaudio_save_file :: "env \<Rightarrow> path \<Rightarrow> tensor \<Rightarrow> nat \<Rightarrow> unit prog" where
  "torchaudio_save_file E p w sr =
     (\<lambda>s. case torchaudio_save E p w sr of
             None \<Rightarrow> (Inr (), emit (TorchaudioSave p) (s\<lparr>fs := fs s \<union> {p}\<rparr>))
           | Some (c, m) \<Rightarrow>
               (Inl (Exc c m),
                emit (TorchaudioSave p)
                  (if save_leaves_output E p then s\<lparr>fs := fs s \<union> {p}\<rparr> else s)))"

text \<open>\<open>e.stderr.decode() if e.stderr else str(e)\<close>.\<close>

definition stderr_or_str :: "env \<Rightarrow> stderr_bytes \<Rightarrow> ustr \<Rightarrow> exc + ustr" where
  "stderr_or_str E b m =
     (case b of
        Utf8Bytes t \<Rightarrow> Inr (if t = [] then m else t)
      | InvalidUtf8 \<Rightarrow> Inl (Exc UnicodeDecodeError (fault_text E Undecodable)))"

text \<open>
  The cleanup of both \<open>finally\<close> blocks:
  \<open>if f and os.path.exists(f): try: os.remove(f) except OSError as e: print(...)\<close>.
\<close>

definition remove_if_exists :: "env \<Rightarrow> path option \<Rightarrow> unit prog" where
  "remove_if_exists E f =
     (case f of
        None \<Rightarrow> ret ()
      | Some p \<Rightarrow>
          if p = [] then ret ()
          else andthen (os_path_exists p) (\<lambda>there.
                 if there
                 then try_except (os_remove E p)
                        (\<lambda>e. if isinstance e OSError then ret () else raise e)
                 else ret ()))"

subsection \<open>\<open>preprocess_audio\<close>\<close>

text \<open>Lines 94 to 106: load, down-mix, denoise, enhance, silence check, save.\<close>

definition enhance_and_save :: "env \<Rightarrow> globals \<Rightarrow> path \<Rightarrow> path \<Rightarrow> path prog" where
  "enhance_and_save E g current_audio_path output_enhanced_path =
     andthen (call (TorchaudioLoad current_audio_path) (torchaudio_load E current_audio_path))
       (\<lambda>(dwav, sr).
     andthen (call TensorMean (tensor_mean E dwav)) (\<lambda>dwav.
     andthen (call Denoise (denoise E dwav sr (DEVICE g))) (\<lambda>(wav_denoised, sr_denoised).
     andthen (call Enhance (enhance E wav_denoised sr_denoised (DEVICE g)))
       (\<lambda>(wav_enhanced, sr_enhanced).
     andthen (call PeakCheck (peak_below_threshold E wav_enhanced)) (\<lambda>silent.
       if silent
       then raise (Exc ValueError
                     (ascii ''Enhanced audio is almost silent, processing likely failed.''))
       else andthen (torchaudio_save_file E output_enhanced_path wav_enhanced sr_enhanced)
              (\<lambda>u. ret output_enhanced_path))))))"

text \<open>The handler of line 107: print the decoded standard error, then re-raise.\<close>

definition ffmpeg_error_handler :: "env \<Rightarrow> exc \<Rightarrow> path prog" where
  "ffmpeg_error_handler E e =
     (case e of
        CalledProcessError b m \<Rightarrow>
          (case stderr_or_str E b m of Inl e' \<Rightarrow> raise e' | Inr t \<Rightarrow> raise e)
      | Exc c m \<Rightarrow> raise e)"

text \<open>The two file names that \<open>preprocess_audio\<close> builds, lines 78 to 80 and 86.\<close>

definition enhanced_path_of :: "env \<Rightarrow> path \<Rightarrow> path \<Rightarrow> path" where
  "enhanced_path_of E input_audio_path output_dir =
     join output_dir
       (fst (splitext (basename input_audio_path)) @ ascii ''_enhanced_'' @ uuid_enhanced E
          @ ascii ''.wav'')"

definition conversion_path_of :: "env \<Rightarrow> path \<Rightarrow> path \<Rightarrow> path" where
  "conversion_path_of E input_audio_path output_dir =
     join output_dir
       (fst (splitext (basename input_audio_path)) @ ascii ''_temp_conversion_''
          @ uuid_conversion E @ ascii ''.wav'')"

definition preprocess_audio :: "env \<Rightarrow> globals \<Rightarrow> path \<Rightarrow> path \<Rightarrow> path prog" where
  "preprocess_audio E g input_audio_path output_dir =
     (if \<not> heavy_libs_successfully_imported g \<or> \<not> torch g \<or> \<not> torchaudio g
         \<or> \<not> denoise_func g \<or> \<not> enhance_func g
      then raise (Exc ImportError (ascii
        ''Core audio processing libraries (torch, torchaudio, resemble_enhance) are not available for preprocess_audio.''))
      else andthen (os_path_exists input_audio_path) (\<lambda>there.
        if \<not> there
        then raise (Exc FileNotFoundError
                      (ascii ''Input file '' @ input_audio_path @ ascii '' does not exist.''))
        else andthen (os_makedirs E output_dir) (\<lambda>u.
          let ext = snd (splitext (basename input_audio_path));
              output_enhanced_path = enhanced_path_of E input_audio_path output_dir;
              temp_wav_path = conversion_path_of E input_audio_path output_dir;
              temp_wav_file = (if py_lower ext \<noteq> ascii ''.wav'' then Some temp_wav_path else None)
          in try_finally
               (try_except
                  (andthen
                     (case temp_wav_file of
                        None \<Rightarrow> ret input_audio_path
                      | Some t \<Rightarrow> andthen (subprocess_run_ffmpeg E input_audio_path t) (\<lambda>u. ret t))
                     (\<lambda>current_audio_path.
                        enhance_and_save E g current_audio_path output_enhanced_path))
                  (ffmpeg_error_handler E))
               (remove_if_exists E temp_wav_file))))"

subsection \<open>\<open>transcribe_audio\<close>\<close>

text \<open>
  The clause \<open>except Exception as e: print(...); raise\<close> re-raises what it caught, so it
  leaves no mark in the model. \<open>enhanced_file_path\<close> is still \<open>None\<close> in the \<open>finally\<close>
  block when \<open>preprocess_audio\<close> raised. The capability \<open>whisper_transcribe\<close> stands for
  the call of the model, the unpacking of its result and the consumption of the lazy
  segment sequence, any of which may raise.
\<close>

definition transcribe_audio :: "env \<Rightarrow> globals \<Rightarrow> path \<Rightarrow> path \<Rightarrow> ustr prog" where
  "transcribe_audio E g audio_file_path temp_processing_dir =
     (if \<not> heavy_libs_successfully_imported g \<or> \<not> WhisperModel g
      then raise (Exc ImportError
                    (ascii ''faster_whisper.WhisperModel class not imported. Cannot transcribe.''))
      else if \<not> WHISPER_MODEL_INSTANCE g
      then raise (Exc ImportError
                    (ascii ''WHISPER_MODEL_INSTANCE is not initialized. Cannot transcribe.''))
      else try_except_else (preprocess_audio E g audio_file_path temp_processing_dir)
             (\<lambda>e. try_finally (raise e) (remove_if_exists E None))
             (\<lambda>enhanced_file_path.
                try_finally
                  (andthen
                     (call (WhisperTranscribe enhanced_file_path)
                        (whisper_transcribe E enhanced_file_path))
                     (\<lambda>segments. ret (concat segments)))
                  (remove_if_exists E (Some enhanced_file_path))))"

subsection \<open>\<open>analyze_text\<close>\<close>

definition SENTIMENT_UNKNOWN :: ustr where
  "SENTIMENT_UNKNOWN = [26410, 30693]"

text \<open>The prompt is the fixed Chinese instruction text with the transcript embedded.\<close>

definition prompt_head :: ustr where
  "prompt_head =
     [10, 20320, 26159, 19968, 20010, 23458, 26381, 24405, 38899, 23457, 26680, 21161, 25163,
      12290, 20998, 26512, 20197, 19979, 20013, 25991, 23458, 26381, 23545, 35805, 25991, 26412,
      65292, 21487, 33021, 21253, 21547, 36716, 24405, 38169, 35823, 25110, 19981, 23436, 25972,
      20869, 23481, 12290, 23436, 25104, 20197, 19979, 20219, 21153, 65306, 10, 49, 46, 32, 24773,
      24863, 20998, 26512, 65306, 21028, 26029, 23545, 35805, 30340, 24773, 24863, 20542, 21521,
      65288, 27491, 38754, 12289, 36127, 38754, 25110, 20013, 24615, 65289, 12290, 33509, 25991,
      26412, 19981, 23436, 25972, 65292, 22522, 20110, 19978, 19979, 25991, 25512, 26029, 12290,
      10, 50, 46, 32, 21512, 35268, 24615, 26816, 26597, 65306, 26816, 27979, 26159, 21542, 23384,
      22312, 19981, 24403, 29992, 35821, 65288, 22914, 8220, 36785, 39554, 8221, 8220, 23041,
      32961, 8221, 65289, 25110, 36829, 35268, 34892, 20026, 65288, 22914, 8220, 36829, 21453,
      25919, 31574, 8221, 65289, 12290, 10, 51, 46, 32, 25552, 20379, 31616, 30701, 30340, 20998,
      26512, 25688, 35201, 65292, 35828, 26126, 24773, 24863, 21644, 21512, 35268, 24615, 32467,
      35770, 12290, 10, 10, 23545, 35805, 25991, 26412, 65306, 10]"

definition prompt_tail :: ustr where
  "prompt_tail =
     [10, 10, 36755, 20986, 26684, 24335, 65288, 74, 83, 79, 78, 65289, 65306, 10, 123, 10, 32,
      32, 32, 32, 34, 115, 101, 110, 116, 105, 109, 101, 110, 116, 34, 58, 32, 34, 27491, 38754,
      47, 36127, 38754, 47, 20013, 24615, 34, 44, 10, 32, 32, 32, 32, 34, 99, 111, 109, 112, 108,
      105, 97, 110, 99, 101, 95, 105, 115, 115, 117, 101, 115, 34, 58, 32, 91, 34, 38382, 39064,
      49, 34, 44, 32, 34, 38382, 39064, 50, 34, 44, 32, 46, 46, 46, 93, 32, 25110, 32, 91, 93, 44,
      10, 32, 32, 32, 32, 34, 115, 117, 109, 109, 97, 114, 121, 34, 58, 32, 34, 20998, 26512,
      25688, 35201, 34, 10, 125, 10]"

definition build_prompt :: "ustr \<Rightarrow> ustr" where
  "build_prompt text = prompt_head @ text @ prompt_tail"

text \<open>The dict literal \<open>{"sentiment": ..., "compliance_issues": [...], "summary": ...}\<close>.\<close>

definition analysis_dict :: "ustr \<Rightarrow> ustr list \<Rightarrow> ustr \<Rightarrow> pydict" where
  "analysis_dict sentiment issues summary =
     [(ascii ''sentiment'', PStr sentiment),
      (ascii ''compliance_issues'', PList (map PStr issues)),
      (ascii ''summary'', PStr summary)]"

text \<open>\<open>key in v\<close>.\<close>

fun py_contains :: "env \<Rightarrow> pyval \<Rightarrow> ustr \<Rightarrow> exc + bool" where
  "py_contains E (PDict kvs) k = Inr (k \<in> fst ` set kvs)"
| "py_contains E (PObj kvs) k = Inr (k \<in> fst ` set kvs)"
| "py_contains E (PStr s) k = Inr (str_contains s k)"
| "py_contains E (PList xs) k = Inr (PStr k \<in> set xs)"
| "py_contains E v k = Inl (Exc TypeError (fault_text E (NotIterable v)))"

text \<open>\<open>v[key]\<close> for a string key.\<close>

fun py_getitem :: "env \<Rightarrow> pyval \<Rightarrow> ustr \<Rightarrow> exc + pyval" where
  "py_getitem E (PDict kvs) k =
     (case map_of kvs k of
        Some x \<Rightarrow> Inr x
      | None \<Rightarrow> Inl (Exc KeyError (fault_text E (MissingKey k))))"
| "py_getitem E (PObj kvs) k =
     (case map_of kvs k of
        Some x \<Rightarrow> Inr x
      | None \<Rightarrow> Inl (Exc KeyError (fault_text E (MissingKey k))))"
| "py_getitem E v k = Inl (Exc TypeError (fault_text E (NotSubscriptable v)))"

text \<open>\<open>v[key] = x\<close> for a string key.\<close>

fun py_setitem :: "env \<Rightarrow> pyval \<Rightarrow> ustr \<Rightarrow> pyval \<Rightarrow> exc + pydict" where
  "py_setitem E (PDict kvs) k x = Inr (AList.update k x kvs)"
| "py_setitem E v k x = Inl (Exc TypeError (fault_text E (NoItemAssignment v)))"

text \<open>
  Line 181: \<open>response.get('response', '')[:100] if isinstance(response, dict)
  else str(response)[:100]\<close>, as the f-string then renders it.
\<close>

definition raw_response_prefix :: "env \<Rightarrow> pyval \<Rightarrow> exc + ustr" where
  "raw_response_prefix E response =
     (case response of
        PDict kvs \<Rightarrow>
          (case map_of kvs (ascii ''response'') of
             None \<Rightarrow> Inr []
           | Some (PStr t) \<Rightarrow> Inr (take 100 t)
           | Some (PList xs) \<Rightarrow> Inr (py_str E (PList (take 100 xs)))
           | Some v \<Rightarrow> Inl (Exc TypeError (fault_text E (NotSubscriptable v))))
      | v \<Rightarrow> Inr (take 100 (py_str E v)))"

text \<open>The summary of line 184, \<open>f"...Raw: {raw_resp}..."\<close>, whose fixed text is Chinese.\<close>

definition parse_failure_summary :: "ustr \<Rightarrow> ustr" where
  "parse_failure_summary raw_resp =
     [26080, 27861, 35299, 26512] @ ascii ''LLM'' @ [36755, 20986, 12290] @ ascii ''Raw: ''
       @ raw_resp @ ascii ''...''"

text \<open>Lines 173 to 179, once \<open>response\<close> is bound.\<close>

definition check_and_parse :: "env \<Rightarrow> ustr \<Rightarrow> pyval \<Rightarrow> pyval prog" where
  "check_and_parse E text response =
     (let format_error =
            PDict (analysis_dict SENTIMENT_UNKNOWN [ascii ''LLM response format error'']
                     (ascii ''Ollama returned an unexpected response structure: ''
                        @ take 100 text @ ascii ''...''))
      in case py_contains E response (ascii ''response'') of
           Inl e \<Rightarrow> raise e
         | Inr False \<Rightarrow> ret format_error
         | Inr True \<Rightarrow>
             (case py_getitem E response (ascii ''response'') of
                Inl e \<Rightarrow> raise e
              | Inr (PStr t) \<Rightarrow>
                  (case json_loads E t of
                     Inl (c, m) \<Rightarrow> raise (Exc c m)
                   | Inr analysis_result \<Rightarrow> ret analysis_result)
              | Inr v \<Rightarrow> ret format_error))"

text \<open>
  The two \<open>except\<close> clauses of lines 180 and 186. The first reads the local \<open>response\<close>,
  which is unbound when \<open>ollama.generate\<close> itself raised; an exception raised inside
  a handler is not caught by the clause that follows it.
\<close>

definition analyze_handler :: "env \<Rightarrow> pyval option \<Rightarrow> exc \<Rightarrow> pyval prog" where
  "analyze_handler E response e =
     (if isinstance e JSONDecodeError
      then (case response of
              None \<Rightarrow> raise (Exc UnboundLocalError (fault_text E (UnboundLocal (ascii ''response''))))
            | Some r \<Rightarrow>
                (case raw_response_prefix E r of
                   Inl e' \<Rightarrow> raise e'
                 | Inr raw_resp \<Rightarrow>
                     ret (PDict (analysis_dict SENTIMENT_UNKNOWN
                                   [ascii ''JSON parsing error: '' @ str_exc e]
                                   (parse_failure_summary raw_resp)))))
      else ret (PDict (analysis_dict SENTIMENT_UNKNOWN
                         [ascii ''Ollama request failed: '' @ str_exc e]
                         (ascii ''LLM'' @ [20998, 26512, 35831, 27714, 22833, 36133, 12290]))))"

definition analyze_text :: "env \<Rightarrow> globals \<Rightarrow> ustr \<Rightarrow> ustr \<Rightarrow> pyval prog" where
  "analyze_text E g text ollama_model =
     andthen (announce (CallAnalyzeText text)) (\<lambda>u.
       if \<not> ollama g
       then raise (Exc ImportError (ascii ''Ollama library is not available.''))
       else try_except_else
              (call (OllamaGenerate ollama_model (build_prompt text))
                 (ollama_generate E ollama_model (build_prompt text)))
              (analyze_handler E None)
              (\<lambda>response.
                 try_except (check_and_parse E text response)
                   (analyze_handler E (Some response))))"

subsection \<open>\<open>perform_full_audio_audit\<close>\<close>

definition failed_record :: "path \<Rightarrow> ustr \<Rightarrow> pydict" where
  "failed_record audio_file_path message =
     [(ascii ''audio_file'', PStr (basename audio_file_path)),
      (ascii ''error'', PStr message),
      (ascii ''status'', PStr (ascii ''FAILED''))]"

text \<open>The \<open>except\<close> clauses of lines 214 to 224, in their order.\<close>

definition audit_handler :: "env \<Rightarrow> path \<Rightarrow> exc \<Rightarrow> pydict prog" where
  "audit_handler E audio_file_path e =
     (if isinstance e FileNotFoundError
      then ret (failed_record audio_file_path (ascii ''Input audio file not found.''))
      else if isinstance e ValueError
      then ret (failed_record audio_file_path (ascii ''Processing error: '' @ str_exc e))
      else (case e of
              CalledProcessError b m \<Rightarrow>
                (case stderr_or_str E b m of
                   Inl e' \<Rightarrow> raise e'
                 | Inr err_msg \<Rightarrow>
                     ret (failed_record audio_file_path
                            (ascii ''Audio conversion failed: '' @ err_msg)))
            | Exc c m \<Rightarrow>
                if isinstance e ImportError
                then ret (failed_record audio_file_path
                            (ascii ''Import error during processing: '' @ str_exc e))
                else ret (failed_record audio_file_path
                            (ascii ''An unexpected error occurred: '' @ str_exc e))))"

text \<open>
  The summary of line 208, in Chinese: the transcription of the audio is empty, no
  analysis can be made.
\<close>

definition no_analysis_summary :: ustr where
  "no_analysis_summary =
     [38899, 39057, 36716, 24405, 32467, 26524, 20026, 31354, 65292, 26080, 27861, 36827,
      34892, 20998, 26512, 12290]"

text \<open>The body of the \<open>try\<close>, lines 200 to 213.\<close>

definition audit_body :: "env \<Rightarrow> globals \<Rightarrow> path \<Rightarrow> path \<Rightarrow> pydict prog" where
  "audit_body E g audio_file_path temp_dir =
     (if \<not> heavy_libs_successfully_imported g \<or> \<not> WHISPER_MODEL_INSTANCE g
      then raise (Exc ImportError
                    (ascii ''Core audio processing components are not available for a full audit.''))
      else andthen (transcribe_audio E g audio_file_path temp_dir) (\<lambda>transcription.
        if py_strip transcription = []
        then ret ([(ascii ''audio_file'', PStr (basename audio_file_path)),
                   (ascii ''transcription'', PStr [])]
                  @ analysis_dict SENTIMENT_UNKNOWN [ascii ''Empty transcription'']
                      no_analysis_summary)
        else andthen (analyze_text E g transcription OLLAMA_MODEL_NAME) (\<lambda>analysis.
          case py_setitem E analysis (ascii ''audio_file'') (PStr (basename audio_file_path)) of
            Inl e \<Rightarrow> raise e
          | Inr analysis' \<Rightarrow>
              ret (AList.update (ascii ''transcription'') (PStr transcription) analysis'))))"

definition perform_full_audio_audit :: "env \<Rightarrow> globals \<Rightarrow> path \<Rightarrow> pydict prog" where
  "perform_full_audio_audit E g audio_file_path =
     with_temporary_directory E (\<lambda>temp_dir.
       try_except (audit_body E g audio_file_path temp_dir) (audit_handler E audio_file_path))"

section \<open>\<open>main.py\<close>: the batch endpoint\<close>

text \<open>The response models \<open>AudioAuditResponse\<close> and \<open>ZipUploadResponse\<close>.\<close>

record audit_response =
  audio_file :: ustr
  transcription :: "ustr option"
  sentiment :: "ustr option"
  compliance_issues :: "ustr list option"
  summary :: "ustr option"
  error :: "ustr option"
  status :: "ustr option"

record zip_response =
  message :: ustr
  processed_files :: "audit_response list"
  errors :: "ustr list"

datatype http_exc = HTTPException nat ustr

text \<open>
  What extracting the archive does: the archive is rejected as \<open>BadZipFile\<close>, extraction
  fails otherwise, or it succeeds and \<open>os.walk\<close> then yields the given directories, each
  with the names of its files.
\<close>

datatype extraction =
    BadZipFile
  | ExtractFailed lib_error
  | Extracted "(path \<times> ustr list) list"

text \<open>
  The outside world of the endpoint. \<open>make_response\<close> is the validation
  \<open>AudioAuditResponse(**d)\<close> of the web framework's model class.
\<close>

record web =
  uuid_zip :: ustr
  uuid_extraction :: ustr
  save_upload_error :: "path \<Rightarrow> lib_error option"
  extract_all :: "path \<Rightarrow> path \<Rightarrow> extraction"
  rmtree_error :: "path \<Rightarrow> ustr option"
  make_response :: "pydict \<Rightarrow> lib_error + audit_response"

definition TEMP_UPLOADS_DIR :: path where
  "TEMP_UPLOADS_DIR = ascii ''temp_uploads''"

definition SUPPORTED_AUDIO_EXTENSIONS :: "ustr list" where
  "SUPPORTED_AUDIO_EXTENSIONS =
     [ascii ''.wav'', ascii ''.mp3'', ascii ''.m4a'', ascii ''.flac'', ascii ''.ogg'', ascii ''.aac'']"

text \<open>The test of line 182 on one extracted file name.\<close>

definition is_supported_audio :: "ustr \<Rightarrow> bool" where
  "is_supported_audio item_name =
     (py_lower (snd (splitext item_name)) \<in> set SUPPORTED_AUDIO_EXTENSIONS)"

text \<open>Lines 154 and 155: the upload is written to \<open>temp_zip_path\<close>.\<close>

definition save_upload :: "web \<Rightarrow> path \<Rightarrow> unit prog" where
  "save_upload W p =
     (\<lambda>s. case save_upload_error W p of
             Some (c, m) \<Rightarrow> (Inl (Exc c m), emit (SaveUpload p) s)
           | None \<Rightarrow> (Inr (), emit (SaveUpload p) (s\<lparr>fs := fs s \<union> {p}\<rparr>)))"

text \<open>
  Lines 184 to 199: one supported file is audited; whatever the audit or the validation of
  its result raises becomes a \<open>FAILED\<close> entry, so this step never raises.
\<close>

definition audit_item ::
  "env \<Rightarrow> globals \<Rightarrow> web \<Rightarrow> path \<Rightarrow> ustr \<Rightarrow> state \<Rightarrow> audit_response \<times> state" where
  "audit_item E g W root item_name =
     (\<lambda>s. let item_path = join root item_name;
               failed = (\<lambda>e. \<lparr>audio_file = item_name, transcription = None, sentiment = None,
                              compliance_issues = None, summary = None,
                              error = Some (ascii ''Failed to process audio file: '' @ str_exc e),
                              status = Some (ascii ''FAILED'')\<rparr>)
           in case andthen (announce (CallAudit item_path))
                     (\<lambda>u. perform_full_audio_audit E g item_path) s of
                (Inl e, s') \<Rightarrow> (failed e, s')
              | (Inr analysis_result_dict, s') \<Rightarrow>
                  (case make_response W analysis_result_dict of
                     Inl (c, m) \<Rightarrow> (failed (Exc c m), s')
                   | Inr r \<Rightarrow> (r, s')))"

text \<open>The inner loop of line 178 over the files of one directory.\<close>

fun audit_files ::
  "env \<Rightarrow> globals \<Rightarrow> web \<Rightarrow> path \<Rightarrow> ustr list \<Rightarrow> audit_response list \<Rightarrow> state
     \<Rightarrow> audit_response list \<times> state" where
  "audit_files E g W root [] results s = (results, s)"
| "audit_files E g W root (item_name # rest) results s =
     (if is_supported_audio item_name
      then (case audit_item E g W root item_name s of
              (r, s') \<Rightarrow> audit_files E g W root rest (results @ [r]) s')
      else audit_files E g W root rest results s)"

text \<open>The outer loop of line 177 over what \<open>os.walk\<close> yields.\<close>

fun walk_and_audit ::
  "env \<Rightarrow> globals \<Rightarrow> web \<Rightarrow> (path \<times> ustr list) list \<Rightarrow> audit_response list \<Rightarrow> state
     \<Rightarrow> audit_response list \<times> state" where
  "walk_and_audit E g W [] results s = (results, s)"
| "walk_and_audit E g W ((root, files_in_dir) # later) results s =
     (case audit_files E g W root files_in_dir results s of
        (results', s') \<Rightarrow> walk_and_audit E g W later results' s')"

text \<open>
  The body of the outer \<open>try\<close>, lines 153 to 210. \<open>general_errors\<close> is still empty when
  line 203 is reached, since the only earlier append returns at once.
\<close>

definition zip_try ::
  "env \<Rightarrow> globals \<Rightarrow> web \<Rightarrow> ustr \<Rightarrow> path \<Rightarrow> path \<Rightarrow> zip_response prog" where
  "zip_try E g W filename temp_zip_path extraction_path =
     andthen (save_upload W temp_zip_path) (\<lambda>u.
     andthen (os_makedirs E extraction_path) (\<lambda>u s.
       case extract_all W temp_zip_path extraction_path of
         BadZipFile \<Rightarrow>
           (Inr \<lparr>message = ascii ''Error processing ZIP file.'', processed_files = [],
                 errors = [ascii ''Uploaded file '' @ [39] @ filename @ [39]
                             @ ascii '' is not a valid ZIP file or is corrupted.'']\<rparr>,
            emit (ExtractAll temp_zip_path extraction_path) s)
       | ExtractFailed (c, m) \<Rightarrow>
           (Inl (Exc c m), emit (ExtractAll temp_zip_path extraction_path) s)
       | Extracted listing \<Rightarrow>
           (case walk_and_audit E g W listing []
                   (emit (OsWalk extraction_path)
                      (emit (ExtractAll temp_zip_path extraction_path)
                         (s\<lparr>fs := fs s
                                \<union> set (concat (map (\<lambda>(root, files_in_dir).
                                                       root # map (join root) files_in_dir) listing))\<rparr>)))
            of (results, s') \<Rightarrow>
              (let general_errors =
                     (if results = []
                      then [ascii ''No supported audio files found in the ZIP archive.'']
                      else [])
               in (Inr \<lparr>message = (if general_errors = [] then ascii ''ZIP file processed.''
                                     else ascii ''ZIP file processed with errors.''),
                         processed_files = results, errors = general_errors\<rparr>, s')))))"

text \<open>
  The \<open>finally\<close> block, lines 227 to 240: both removals swallow \<open>OSError\<close>, so the block
  never raises.
\<close>

definition zip_cleanup :: "env \<Rightarrow> web \<Rightarrow> path \<Rightarrow> path \<Rightarrow> state \<Rightarrow> state" where
  "zip_cleanup E W temp_zip_path extraction_path =
     (\<lambda>s. let s1 = (if temp_zip_path \<in> fs s
                     then emit (OsRemove temp_zip_path)
                            (case os_remove_error E temp_zip_path of
                               None \<Rightarrow> (emit (OsPathExists temp_zip_path) s)
                                          \<lparr>fs := fs s - {temp_zip_path}\<rparr>
                             | Some m \<Rightarrow> emit (OsPathExists temp_zip_path) s)
                     else emit (OsPathExists temp_zip_path) s)
           in if extraction_path \<in> fs s1
              then emit (ShutilRmtree extraction_path)
                     (case rmtree_error W extraction_path of
                        None \<Rightarrow> (emit (OsPathExists extraction_path) s1)
                                   \<lparr>fs := Set.filter (\<lambda>p. \<not> in_tree extraction_path p) (fs s1)\<rparr>
                      | Some m \<Rightarrow> emit (OsPathExists extraction_path) s1)
              else emit (OsPathExists extraction_path) s1)"

text \<open>
  The endpoint. The two \<open>HTTPException\<close>s are raised before the \<open>try\<close>; nothing inside it
  raises one, so the clause of line 212 is never taken, and every other exception becomes
  a response at line 214 (where \<open>results\<close> is still empty, the loop raising nothing).
\<close>

definition zip_path_of :: "web \<Rightarrow> ustr \<Rightarrow> path" where
  "zip_path_of W filename = join TEMP_UPLOADS_DIR (uuid_zip W @ ascii ''_'' @ filename)"

definition extraction_path_of :: "web \<Rightarrow> path" where
  "extraction_path_of W = join TEMP_UPLOADS_DIR (ascii ''zip_extraction_'' @ uuid_extraction W)"

definition upload_zip ::
  "env \<Rightarrow> globals \<Rightarrow> web \<Rightarrow> ustr option \<Rightarrow> state \<Rightarrow> (http_exc + zip_response) \<times> state" where
  "upload_zip E g W file_filename =
     (\<lambda>s. case file_filename of
             None \<Rightarrow> (Inl (HTTPException 400 (ascii ''No filename provided for the ZIP file.'')), s)
           | Some filename \<Rightarrow>
               if filename = []
               then (Inl (HTTPException 400 (ascii ''No filename provided for the ZIP file.'')), s)
               else if \<not> endswith filename (ascii ''.zip'')
               then (Inl (HTTPException 400
                            (ascii ''Invalid file type. Only .zip files are accepted.'')), s)
               else
                 (let temp_zip_path = zip_path_of W filename;
                      extraction_path = extraction_path_of W
                  in case zip_try E g W filename temp_zip_path extraction_path s of
                       (Inr response, s') \<Rightarrow>
                         (Inr response, zip_cleanup E W temp_zip_path extraction_path s')
                     | (Inl e, s') \<Rightarrow>
                         (Inr \<lparr>message = ascii ''Unexpected server error during ZIP processing.'',
                               processed_files = [],
                               errors = [ascii ''An unexpected server error occurred: ''
                                           @ str_exc e]\<rparr>,
                          zip_cleanup E W temp_zip_path extraction_path s')))"

section \<open>Vocabulary of the properties\<close>

subsection \<open>What the claims speak about\<close>

text \<open>
  A temporary directory as \<open>mkdtemp\<close> hands it out: a non-empty name without a trailing
  slash, with nothing of the directory or below it on the file system yet.
\<close>

definition fresh_temp_dir :: "path \<Rightarrow> state \<Rightarrow> bool" where
  "fresh_temp_dir d s =
     (d \<noteq> [] \<and> \<not> suffix [chr_slash] d \<and> (\<forall>p \<in> fs s. \<not> in_tree d p))"

text \<open>
  The state in which the stages of an invocation end, once its temporary directory has
  been created (the handlers of lines 214 to 224 change nothing), and what the cleanup of
  the directory does from there: it returns, or it raises.
\<close>

definition stages_end :: "env \<Rightarrow> globals \<Rightarrow> path \<Rightarrow> state \<Rightarrow> state" where
  "stages_end E g p s =
     snd (audit_body E g p (tmpdir_name E) (enter_temporary_directory E s))"

definition cleanup_outcome :: "env \<Rightarrow> globals \<Rightarrow> path \<Rightarrow> state \<Rightarrow> exc + unit" where
  "cleanup_outcome E g p s =
     fst (exit_temporary_directory E (tmpdir_name E) (stages_end E g p s))"

text \<open>
  The failure categories of the specification (missing file, value or validation error,
  external-tool failure, capability unavailable, anything else), the exceptions that fall
  in each, and the text that opens the error string of each.
\<close>

datatype failure_category =
    MissingInput
  | InvalidValue
  | ConversionFailed
  | CapabilityUnavailable
  | Unexpected

fun category_of :: "exc \<Rightarrow> failure_category" where
  "category_of (CalledProcessError b m) = ConversionFailed"
| "category_of (Exc c m) =
     (if is_subclass c FileNotFoundError then MissingInput
      else if is_subclass c ValueError then InvalidValue
      else if is_subclass c ImportError then CapabilityUnavailable
      else Unexpected)"

fun category_text :: "failure_category \<Rightarrow> ustr" where
  "category_text MissingInput = ascii ''Input audio file not found.''"
| "category_text InvalidValue = ascii ''Processing error: ''"
| "category_text ConversionFailed = ascii ''Audio conversion failed: ''"
| "category_text CapabilityUnavailable = ascii ''Import error during processing: ''"
| "category_text Unexpected = ascii ''An unexpected error occurred: ''"

text \<open>The entry of a returned dict under a key; nothing when the result is not a dict.\<close>

fun field :: "exc + pyval \<Rightarrow> ustr \<Rightarrow> pyval option" where
  "field (Inr (PDict kvs)) k = map_of kvs k"
| "field r k = None"

text \<open>The calls of the language-model adapter and of its service in a trace.\<close>

fun is_llm_event :: "event \<Rightarrow> bool" where
  "is_llm_event (CallAnalyzeText t) = True"
| "is_llm_event (OllamaGenerate m p) = True"
| "is_llm_event ev = False"

definition llm_events :: "state \<Rightarrow> event list" where
  "llm_events s = filter is_llm_event (trace s)"

text \<open>The calls of \<open>perform_full_audio_audit\<close> made by the batch endpoint.\<close>

fun is_audit_call :: "event \<Rightarrow> bool" where
  "is_audit_call (CallAudit p) = True"
| "is_audit_call ev = False"

definition audit_calls :: "state \<Rightarrow> event list" where
  "audit_calls s = filter is_audit_call (trace s)"

subsection \<open>Invariants of programs\<close>

text \<open>An exception that the handler of line 218 can report: its standard error decodes.\<close>

definition decodable :: "exc \<Rightarrow> bool" where
  "decodable e = (case e of CalledProcessError InvalidUtf8 m \<Rightarrow> False | _ \<Rightarrow> True)"

definition raises_only :: "(exc \<Rightarrow> bool) \<Rightarrow> 'a prog \<Rightarrow> bool" where
  "raises_only X m = (\<forall>s e s'. m s = (Inl e, s') \<longrightarrow> X e)"

definition returns_only :: "('a \<Rightarrow> bool) \<Rightarrow> 'a prog \<Rightarrow> bool" where
  "returns_only Y m = (\<forall>s x s'. m s = (Inr x, s') \<longrightarrow> Y x)"

definition steps :: "(state \<Rightarrow> state \<Rightarrow> bool) \<Rightarrow> 'a prog \<Rightarrow> bool" where
  "steps R m = (\<forall>s. R s (snd (m s)))"

definition steps_if_raises :: "(state \<Rightarrow> state \<Rightarrow> bool) \<Rightarrow> 'a prog \<Rightarrow> bool" where
  "steps_if_raises R m = (\<forall>s e s'. m s = (Inl e, s') \<longrightarrow> R s s')"

definition returns_in :: "(state \<Rightarrow> bool) \<Rightarrow> 'a prog \<Rightarrow> bool" where
  "returns_in P m = (\<forall>s x s'. m s = (Inr x, s') \<longrightarrow> P s')"

definition preorder_rel :: "(state \<Rightarrow> state \<Rightarrow> bool) \<Rightarrow> bool" where
  "preorder_rel R = ((\<forall>s. R s s) \<and> (\<forall>a b c. R a b \<longrightarrow> R b c \<longrightarrow> R a c))"

definition same_fs :: "state \<Rightarrow> state \<Rightarrow> bool" where
  "same_fs s s' = (fs s' = fs s)"

definition keeps_outside :: "path \<Rightarrow> state \<Rightarrow> state \<Rightarrow> bool" where
  "keeps_outside d s s' =
     (d \<in> fs s \<longrightarrow> d \<in> fs s' \<and> (\<forall>p. \<not> in_tree d p \<longrightarrow> (p \<in> fs s' \<longleftrightarrow> p \<in> fs s)))"

definition not_created_unless :: "path \<Rightarrow> bool \<Rightarrow> state \<Rightarrow> state \<Rightarrow> bool" where
  "not_created_unless q L s s' = (q \<in> fs s' \<longrightarrow> q \<in> fs s \<or> L)"

definition llm_silent :: "state \<Rightarrow> state \<Rightarrow> bool" where
  "llm_silent s s' = (llm_events s' = llm_events s)"

definition wf_dir :: "path \<Rightarrow> bool" where
  "wf_dir d = (d \<noteq> [] \<and> \<not> suffix [chr_slash] d)"

subsection \<open>Concrete inputs\<close>

text \<open>
  A world in which every capability succeeds: the recording \<open>/data/call.mp3\<close> is
  transcribed to \<open>hello\<close>, and the language model replies with the text \<open>42\<close>, which is
  valid JSON for the number 42; any other text is rejected by the parser.
\<close>

definition demo_env :: env where
  "demo_env =
     \<lparr>tmpdir_name = ascii ''/tmp/audio_audit_k3x9'',
      mkdtemp_error = None, cleanup_listing = (\<lambda>d. []),
      cleanup_unlink_error = (\<lambda>p. None), cleanup_rmdir_error = (\<lambda>d. None),
      uuid_enhanced = ascii ''0a1b2c3d'', uuid_conversion = ascii ''4e5f6a7b'',
      os_makedirs_error = (\<lambda>p. None), os_remove_error = (\<lambda>p. None),
      run_ffmpeg = (\<lambda>src dst. Completed), ffmpeg_leaves_output = (\<lambda>src dst. False),
      torchaudio_load = (\<lambda>p. Inr (Tensor 0, 16000)), tensor_mean = (\<lambda>w. Inr w),
      denoise = (\<lambda>w sr dev. Inr (w, sr)), enhance = (\<lambda>w sr dev. Inr (w, sr)),
      peak_below_threshold = (\<lambda>w. Inr False),
      torchaudio_save = (\<lambda>p w sr. None), save_leaves_output = (\<lambda>p. False),
      whisper_transcribe = (\<lambda>p. Inr [ascii ''hello'']),
      ollama_generate = (\<lambda>m p. Inr (PDict [(ascii ''response'', PStr (ascii ''42''))])),
      json_loads = (\<lambda>t. if t = ascii ''42'' then Inr (PInt 42)
                         else Inl (JSONDecodeError,
                                   ascii ''Expecting value: line 1 column 1 (char 0)'')),
      py_str = (\<lambda>v. ascii ''<object>''),
      fault_text = (\<lambda>f. ascii ''fault'')\<rparr>"

definition ready :: globals where
  "ready =
     \<lparr>heavy_libs_successfully_imported = True, torch = True, torchaudio = True,
      WhisperModel = True, denoise_func = True, enhance_func = True,
      WHISPER_MODEL_INSTANCE = True, ollama = True, DEVICE = ascii ''cpu''\<rparr>"

text \<open>The libraries imported, but the transcription model failed to initialise.\<close>

definition unavailable :: globals where
  "unavailable = ready\<lparr>WHISPER_MODEL_INSTANCE := False\<rparr>"

definition demo_path :: path where
  "demo_path = ascii ''/data/call.mp3''"

definition demo_state :: state where
  "demo_state = \<lparr>fs = {ascii ''/data/call.mp3''}, trace = []\<rparr>"

text \<open>Removing a file fails, as when another process still holds it.\<close>

definition busy_env :: env where
  "busy_env = demo_env\<lparr>os_remove_error := (\<lambda>p. Some (ascii ''Permission denied''))\<rparr>"

text \<open>The recording holds no speech: the transcript is a blank and a line feed.\<close>

definition blank_env :: env where
  "blank_env = demo_env\<lparr>whisper_transcribe := (\<lambda>p. Inr [[32, 10]])\<rparr>"

text \<open>
  The recording holds no speech, and no file can be removed, as when another process holds
  the files: \<open>os.remove\<close> fails on the conversion file and on the enhanced file, and so
  does the cleanup of the temporary directory, which finds the two as the entries left
  and meets the enhanced file first.
\<close>

definition stuck_env :: env where
  "stuck_env =
     blank_env\<lparr>os_remove_error := (\<lambda>p. Some (ascii ''Permission denied'')),
               cleanup_listing :=
                 (\<lambda>d. [ascii ''/tmp/audio_audit_k3x9/call_enhanced_0a1b2c3d.wav'',
                       ascii ''/tmp/audio_audit_k3x9/call_temp_conversion_4e5f6a7b.wav'']),
               cleanup_unlink_error := (\<lambda>p. Some (PermissionError, ascii ''Permission denied''))\<rparr>"

text \<open>No temporary directory can be created.\<close>

definition full_env :: env where
  "full_env = demo_env\<lparr>mkdtemp_error := Some (OSError, ascii ''No space left on device'')\<rparr>"

text \<open>The language model replies with the four characters \<open>oops\<close>, not valid JSON.\<close>

definition garbled_env :: env where
  "garbled_env =
     demo_env\<lparr>ollama_generate :=
                (\<lambda>m p. Inr (PDict [(ascii ''response'', PStr (ascii ''oops''))]))\<rparr>"

text \<open>
  The same reply, delivered in a typed response object instead of a dict; its \<open>str()\<close> is
  \<open><object>\<close>.
\<close>

definition object_env :: env where
  "object_env =
     demo_env\<lparr>ollama_generate :=
                (\<lambda>m p. Inr (PObj [(ascii ''response'', PStr (ascii ''oops''))]))\<rparr>"

text \<open>
  The service answers with a body that is not JSON, and the client library's own decoding
  of that body raises \<open>json.JSONDecodeError\<close> out of \<open>ollama.generate\<close>.
\<close>

definition html_env :: env where
  "html_env =
     demo_env\<lparr>ollama_generate :=
                (\<lambda>m p. Inl (JSONDecodeError,
                             ascii ''Expecting value: line 1 column 1 (char 0)''))\<rparr>"

text \<open>The language model replies with an object that names another audio file.\<close>

definition conflicting_reply :: pydict where
  "conflicting_reply =
     [(ascii ''sentiment'', PStr (ascii ''neutral'')),
      (ascii ''audio_file'', PStr (ascii ''other.wav'')),
      (ascii ''summary'', PStr (ascii ''fine''))]"

definition conflicting_env :: env where
  "conflicting_env = demo_env\<lparr>json_loads := (\<lambda>t. Inr (PDict conflicting_reply))\<rparr>"

text \<open>An archive that holds \<open>readme.txt\<close> and \<open>doc.pdf\<close> only.\<close>

definition demo_web :: web where
  "demo_web =
     \<lparr>uuid_zip = ascii ''5d41402a'', uuid_extraction = ascii ''7d793037'',
      save_upload_error = (\<lambda>p. None),
      extract_all = (\<lambda>z d. Extracted [(d, [ascii ''readme.txt'', ascii ''doc.pdf''])]),
      rmtree_error = (\<lambda>p. None),
      make_response = (\<lambda>d. Inl (ValueError, ascii ''validation error''))\<rparr>"

definition uploads_state :: state where
  "uploads_state = \<lparr>fs = {ascii ''temp_uploads''}, trace = []\<rparr>"

section \<open>Supporting lemmas\<close>

subsection \<open>effects of primitives\<close>

lemma fs_emit [simp]: "fs (emit ev s) = fs s"
  by (simp add: emit_def)

lemma trace_emit [simp]: "trace (emit ev s) = trace s @ [ev]"
  by (simp add: emit_def)

lemma llm_events_emit [simp]:
  "llm_events (emit ev s) = (if is_llm_event ev then llm_events s @ [ev] else llm_events s)"
  by (simp add: llm_events_def)

lemma llm_events_fs_update [simp]: "llm_events (s\<lparr>fs := F\<rparr>) = llm_events s"
  by (simp add: llm_events_def)

subsection \<open>raises_only\<close>

lemma raises_only_weaken: "raises_only X m \<Longrightarrow> (\<And>e. X e \<Longrightarrow> X' e) \<Longrightarrow> raises_only X' m"
  unfolding raises_only_def by blast

lemma raises_only_any: "raises_only (\<lambda>e. True) m"
  by (simp add: raises_only_def)

lemma raises_only_ret: "raises_only X (ret x)"
  by (simp add: raises_only_def ret_def)

lemma raises_only_announce: "raises_only X (announce ev)"
  by (simp add: raises_only_def announce_def)

lemma raises_only_raise: "X e \<Longrightarrow> raises_only X (raise e)"
  by (simp add: raises_only_def raise_def)

lemma raises_only_andthen:
  "raises_only X m \<Longrightarrow> (\<And>x. raises_only X (f x)) \<Longrightarrow> raises_only X (andthen m f)"
  unfolding raises_only_def andthen_def
  by (fastforce split: prod.splits sum.splits)

lemma raises_only_try_except:
  "raises_only Y m \<Longrightarrow> (\<And>e. Y e \<Longrightarrow> raises_only X (h e)) \<Longrightarrow> raises_only X (try_except m h)"
  unfolding raises_only_def try_except_def
  by (fastforce split: prod.splits sum.splits)

lemma raises_only_try_except_any:
  "(\<And>e. raises_only X (h e)) \<Longrightarrow> raises_only X (try_except m h)"
  unfolding raises_only_def try_except_def
  by (fastforce split: prod.splits sum.splits)

lemma raises_only_try_except_else:
  "raises_only Y m \<Longrightarrow> (\<And>e. Y e \<Longrightarrow> raises_only X (h e)) \<Longrightarrow> (\<And>x. raises_only X (f x))
     \<Longrightarrow> raises_only X (try_except_else m h f)"
  unfolding raises_only_def try_except_else_def
  by (fastforce split: prod.splits sum.splits)

lemma raises_only_try_finally:
  "raises_only X m \<Longrightarrow> raises_only X c \<Longrightarrow> raises_only X (try_finally m c)"
  unfolding raises_only_def try_finally_def
  by (fastforce split: prod.splits sum.splits)

lemma raises_only_call: "(\<And>c m. X (Exc c m)) \<Longrightarrow> raises_only X (call ev r)"
  unfolding raises_only_def call_def
  by (auto split: prod.splits sum.splits)

lemma raises_only_os_path_exists: "raises_only X (os_path_exists p)"
  by (simp add: raises_only_def os_path_exists_def)

lemma raises_only_os_makedirs: "(\<And>c m. X (Exc c m)) \<Longrightarrow> raises_only X (os_makedirs E p)"
  unfolding raises_only_def os_makedirs_def
  by (auto split: prod.splits option.splits if_splits)

lemma os_remove_raises_OSError: "raises_only (\<lambda>e. isinstance e OSError) (os_remove E p)"
  unfolding raises_only_def os_remove_def
  by (auto split: prod.splits option.splits if_splits)

lemma remove_if_exists_never_raises: "raises_only (\<lambda>e. False) (remove_if_exists E f)"
  unfolding remove_if_exists_def
  by (auto intro!: raises_only_ret raises_only_andthen raises_only_os_path_exists
        raises_only_try_except [OF os_remove_raises_OSError] split: option.splits)

lemma raises_only_remove_if_exists: "raises_only X (remove_if_exists E f)"
  by (rule raises_only_weaken [OF remove_if_exists_never_raises]) simp

lemma raises_only_ffmpeg:
  "(\<And>c m. X (Exc c m)) \<Longrightarrow> (\<And>b m. X (CalledProcessError b m))
     \<Longrightarrow> raises_only X (subprocess_run_ffmpeg E a b)"
  unfolding raises_only_def subprocess_run_ffmpeg_def
  by (auto split: prod.splits ffmpeg_outcome.splits if_splits)

lemma raises_only_save:
  "(\<And>c m. X (Exc c m)) \<Longrightarrow> raises_only X (torchaudio_save_file E p w sr)"
  unfolding raises_only_def torchaudio_save_file_def
  by (auto split: prod.splits option.splits if_splits)

lemma decodable_Exc [simp]: "decodable (Exc c m)"
  by (simp add: decodable_def)

lemma raises_only_ffmpeg_error_handler: "raises_only decodable (ffmpeg_error_handler E e)"
  unfolding ffmpeg_error_handler_def stderr_or_str_def
  by (auto intro!: raises_only_raise simp: decodable_def split: exc.splits stderr_bytes.splits)

lemma preprocess_audio_raises: "raises_only decodable (preprocess_audio E g p d)"
  unfolding preprocess_audio_def Let_def
  by (auto intro!: raises_only_raise raises_only_andthen raises_only_try_except_any
        raises_only_try_finally raises_only_os_path_exists raises_only_os_makedirs
        raises_only_remove_if_exists raises_only_ffmpeg_error_handler)

lemma transcribe_audio_raises: "raises_only decodable (transcribe_audio E g p d)"
  unfolding transcribe_audio_def
  by (auto intro!: raises_only_raise raises_only_try_except_else [OF preprocess_audio_raises]
        raises_only_try_finally raises_only_remove_if_exists raises_only_andthen
        raises_only_call raises_only_ret)

lemma py_contains_raises: "py_contains E v k = Inl e \<Longrightarrow> decodable e"
  by (cases v) auto

lemma py_getitem_raises: "py_getitem E v k = Inl e \<Longrightarrow> decodable e"
  by (cases v) (auto split: option.splits)

lemma check_and_parse_raises: "raises_only decodable (check_and_parse E text r)"
  unfolding check_and_parse_def Let_def raises_only_def
  by (auto simp: raise_def ret_def split: sum.splits bool.splits pyval.splits prod.splits
        intro: py_contains_raises py_getitem_raises)

lemma analyze_handler_raises: "raises_only decodable (analyze_handler E r e)"
  unfolding analyze_handler_def raw_response_prefix_def raises_only_def
  by (auto simp: raise_def ret_def split: sum.splits option.splits pyval.splits if_splits)

lemma analyze_text_raises: "raises_only decodable (analyze_text E g text model)"
  unfolding analyze_text_def
  by (auto intro!: raises_only_andthen raises_only_announce raises_only_raise
        raises_only_try_except_else [where Y = "\<lambda>e. True"] raises_only_try_except_any
        analyze_handler_raises raises_only_any)

lemma py_setitem_raises: "py_setitem E v k x = Inl e \<Longrightarrow> decodable e"
  by (cases v) auto

lemma setitem_step_raises:
  "raises_only decodable (case py_setitem E v k x of Inl e \<Rightarrow> raise e | Inr a \<Rightarrow> ret (f a))"
  by (cases v) (auto intro!: raises_only_raise raises_only_ret)

lemma audit_body_raises: "raises_only decodable (audit_body E g p d)"
  unfolding audit_body_def
  by (auto intro!: raises_only_raise raises_only_andthen raises_only_ret
        transcribe_audio_raises analyze_text_raises setitem_step_raises)

subsection \<open>paths\<close>

lemma basename_no_slash: "chr_slash \<notin> set (basename p)"
proof (cases "chr_slash \<in> set p")
  case False
  then show ?thesis
    by (auto simp: basename_def rfind_def dest: in_set_dropD)
next
  case True
  define k where "k = length (takeWhile (\<lambda>x. x \<noteq> chr_slash) (rev p))"
  have k_le: "k \<le> length p"
    unfolding k_def by (metis length_rev length_takeWhile_le)
  have "takeWhile (\<lambda>x. x \<noteq> chr_slash) (rev p) = take k (rev p)"
    unfolding k_def by (rule takeWhile_eq_take)
  also have "\<dots> = rev (drop (length p - k) p)"
    by (simp add: take_rev)
  finally have eq: "drop (length p - k) p = rev (takeWhile (\<lambda>x. x \<noteq> chr_slash) (rev p))"
    by simp
  have "nat (rfind p chr_slash + 1) = length p - k"
    using True k_le by (simp add: rfind_def k_def)
  then have "basename p = rev (takeWhile (\<lambda>x. x \<noteq> chr_slash) (rev p))"
    by (simp add: basename_def eq)
  then show ?thesis
    by (auto dest: set_takeWhileD)
qed

lemma fst_splitext_subset: "set (fst (splitext q)) \<subseteq> set q"
  by (auto simp: splitext_def Let_def dest: in_set_takeD)

lemma stem_no_slash: "chr_slash \<notin> set (fst (splitext (basename p)))"
  using basename_no_slash fst_splitext_subset by blast

lemma temp_name_no_leading_slash:
  "\<not> prefix [chr_slash] (fst (splitext (basename p)) @ ascii (CHR ''_'' # cs) @ rest)"
proof -
  have "hd (fst (splitext (basename p)) @ ascii (CHR ''_'' # cs) @ rest) \<noteq> chr_slash"
    using stem_no_slash [of p]
    by (cases "fst (splitext (basename p))") (auto simp: ascii_def chr_slash_def)
  then show ?thesis
    by (cases "fst (splitext (basename p)) @ ascii (CHR ''_'' # cs) @ rest") auto
qed

lemma join_in_tree:
  "wf_dir d \<Longrightarrow> \<not> prefix [chr_slash] name \<Longrightarrow> in_tree d (join d name)"
  by (simp add: wf_dir_def join_def in_tree_def)

lemma join_longer:
  "\<not> prefix [chr_slash] name \<Longrightarrow> name \<noteq> [] \<Longrightarrow> length d < length (join d name)"
  by (simp add: join_def)

lemma enhanced_in_tree: "wf_dir d \<Longrightarrow> in_tree d (enhanced_path_of E p d)"
  unfolding enhanced_path_of_def
  by (rule join_in_tree) (simp_all add: temp_name_no_leading_slash)

lemma conversion_in_tree: "wf_dir d \<Longrightarrow> in_tree d (conversion_path_of E p d)"
  unfolding conversion_path_of_def
  by (rule join_in_tree) (simp_all add: temp_name_no_leading_slash)

lemma enhanced_longer: "length d < length (enhanced_path_of E p d)"
  unfolding enhanced_path_of_def
  by (rule join_longer, rule temp_name_no_leading_slash) (simp add: ascii_def)

lemma conversion_longer: "length d < length (conversion_path_of E p d)"
  unfolding conversion_path_of_def
  by (rule join_longer, rule temp_name_no_leading_slash) (simp add: ascii_def)

lemma ancestors_shorter: "a \<in> set (ancestors d) \<Longrightarrow> length a \<le> length d"
  by (auto simp: ancestors_def)

lemma enhanced_not_dir [simp]: "enhanced_path_of E p d \<noteq> d" "enhanced_path_of E p d \<noteq> []"
  "enhanced_path_of E p d \<notin> set (ancestors d)"
  using enhanced_longer [of d E p] ancestors_shorter [of "enhanced_path_of E p d" d] by auto

lemma conversion_not_dir [simp]: "conversion_path_of E p d \<noteq> d" "conversion_path_of E p d \<noteq> []"
  "conversion_path_of E p d \<notin> set (ancestors d)"
  using conversion_longer [of d E p] ancestors_shorter [of "conversion_path_of E p d" d] by auto

lemma conversion_not_enhanced [simp]:
  "conversion_path_of E p d \<noteq> enhanced_path_of E p d"
  "enhanced_path_of E p d \<noteq> conversion_path_of E p d"
proof -
  have ne: "ascii ''_temp_conversion_'' @ a \<noteq> ascii ''_enhanced_'' @ b" for a b
    by (simp add: ascii_def)
  have "conversion_path_of E p d \<noteq> enhanced_path_of E p d"
    unfolding conversion_path_of_def enhanced_path_of_def join_def
    using temp_name_no_leading_slash [of p "''temp_conversion_''" "uuid_conversion E @ ascii ''.wav''"]
      temp_name_no_leading_slash [of p "''enhanced_''" "uuid_enhanced E @ ascii ''.wav''"] ne
    by (auto simp: ascii_def)
  then show "conversion_path_of E p d \<noteq> enhanced_path_of E p d"
    "enhanced_path_of E p d \<noteq> conversion_path_of E p d" by auto
qed

subsection \<open>effects\<close>

lemma preorder_same_fs: "preorder_rel same_fs"
  by (simp add: preorder_rel_def same_fs_def)

lemma preorder_keeps_outside: "preorder_rel (keeps_outside d)"
  by (auto simp: preorder_rel_def keeps_outside_def)

lemma preorder_not_created_unless: "preorder_rel (not_created_unless q L)"
  by (auto simp: preorder_rel_def not_created_unless_def)

lemma preorder_llm_silent: "preorder_rel llm_silent"
  by (simp add: preorder_rel_def llm_silent_def)

lemmas preorders = preorder_same_fs preorder_keeps_outside preorder_not_created_unless
  preorder_llm_silent

lemma steps_weaken: "steps R m \<Longrightarrow> (\<And>s s'. R s s' \<Longrightarrow> R' s s') \<Longrightarrow> steps R' m"
  by (simp add: steps_def)

lemma steps_ret: "preorder_rel R \<Longrightarrow> steps R (ret x)"
  by (simp add: steps_def ret_def preorder_rel_def)

lemma steps_raise: "preorder_rel R \<Longrightarrow> steps R (raise e)"
  by (simp add: steps_def raise_def preorder_rel_def)

lemma steps_andthen:
  "preorder_rel R \<Longrightarrow> steps R m \<Longrightarrow> (\<And>x. steps R (f x)) \<Longrightarrow> steps R (andthen m f)"
  unfolding steps_def andthen_def preorder_rel_def
  by (auto split: prod.splits sum.splits) (metis snd_conv)+

lemma steps_try_except:
  "preorder_rel R \<Longrightarrow> steps R m \<Longrightarrow> (\<And>e. steps R (h e)) \<Longrightarrow> steps R (try_except m h)"
  unfolding steps_def try_except_def preorder_rel_def
  by (auto split: prod.splits sum.splits) (metis snd_conv)+

lemma steps_try_except_else:
  "preorder_rel R \<Longrightarrow> steps R m \<Longrightarrow> (\<And>e. steps R (h e)) \<Longrightarrow> (\<And>x. steps R (f x))
     \<Longrightarrow> steps R (try_except_else m h f)"
  unfolding steps_def try_except_else_def preorder_rel_def
  by (auto split: prod.splits sum.splits) (metis snd_conv)+

lemma steps_try_finally:
  "preorder_rel R \<Longrightarrow> steps R m \<Longrightarrow> steps R c \<Longrightarrow> steps R (try_finally m c)"
  unfolding steps_def try_finally_def preorder_rel_def
  by (auto split: prod.splits sum.splits) (metis snd_conv)+

lemmas steps_rules = steps_ret steps_raise steps_andthen steps_try_except steps_try_except_else
  steps_try_finally

subsection \<open>primitive steps\<close>

lemma same_fs_announce: "steps same_fs (announce ev)"
  by (simp add: steps_def same_fs_def announce_def)

lemma same_fs_call: "steps same_fs (call ev r)"
  by (simp add: steps_def same_fs_def call_def)

lemma same_fs_os_path_exists: "steps same_fs (os_path_exists p)"
  by (simp add: steps_def same_fs_def os_path_exists_def)

lemma same_fs_check_and_parse: "steps same_fs (check_and_parse E text r)"
  unfolding check_and_parse_def Let_def steps_def same_fs_def
  by (auto simp: raise_def ret_def split: sum.splits bool.splits pyval.splits prod.splits)

lemma same_fs_analyze_handler: "steps same_fs (analyze_handler E r e)"
  unfolding analyze_handler_def steps_def same_fs_def
  by (auto simp: raise_def ret_def split: sum.splits option.splits)

lemma same_fs_ffmpeg_error_handler: "steps same_fs (ffmpeg_error_handler E e)"
  unfolding ffmpeg_error_handler_def steps_def same_fs_def
  by (auto simp: raise_def ret_def split: sum.splits exc.splits)

lemma same_fs_analyze_text: "steps same_fs (analyze_text E g text model)"
  unfolding analyze_text_def
  by (auto intro!: steps_rules preorders same_fs_announce same_fs_call same_fs_check_and_parse
        same_fs_analyze_handler)

lemma same_fs_keeps_outside: "same_fs s s' \<Longrightarrow> keeps_outside d s s'"
  by (simp add: same_fs_def keeps_outside_def)

lemma same_fs_not_created: "same_fs s s' \<Longrightarrow> not_created_unless q L s s'"
  by (simp add: same_fs_def not_created_unless_def)

lemmas keeps_outside_quiet =
  steps_weaken [OF same_fs_call same_fs_keeps_outside]
  steps_weaken [OF same_fs_os_path_exists same_fs_keeps_outside]
  steps_weaken [OF same_fs_ffmpeg_error_handler same_fs_keeps_outside]
  steps_weaken [OF same_fs_analyze_text same_fs_keeps_outside]

lemmas not_created_quiet =
  steps_weaken [OF same_fs_call same_fs_not_created]
  steps_weaken [OF same_fs_os_path_exists same_fs_not_created]
  steps_weaken [OF same_fs_ffmpeg_error_handler same_fs_not_created]

subsection \<open>keeps_outside\<close>

lemma keeps_outside_os_makedirs: "steps (keeps_outside d) (os_makedirs E d)"
  by (simp add: steps_def keeps_outside_def os_makedirs_def split: option.splits)

lemma keeps_outside_ffmpeg: "in_tree d t \<Longrightarrow> steps (keeps_outside d) (subprocess_run_ffmpeg E a t)"
  by (auto simp: steps_def keeps_outside_def subprocess_run_ffmpeg_def
        split: ffmpeg_outcome.splits)

lemma keeps_outside_save: "in_tree d t \<Longrightarrow> steps (keeps_outside d) (torchaudio_save_file E t w sr)"
  by (auto simp: steps_def keeps_outside_def torchaudio_save_file_def split: option.splits)

lemma keeps_outside_os_remove:
  "in_tree d t \<Longrightarrow> t \<noteq> d \<Longrightarrow> steps (keeps_outside d) (os_remove E t)"
  by (auto simp: steps_def keeps_outside_def os_remove_def split: option.splits)

lemma same_fs_handler_OSError:
  "steps same_fs (if isinstance e OSError then ret () else raise e)"
  by (simp add: steps_def same_fs_def ret_def raise_def)

lemma keeps_outside_remove_if_exists:
  "(\<And>t. f = Some t \<Longrightarrow> in_tree d t \<and> t \<noteq> d)
     \<Longrightarrow> steps (keeps_outside d) (remove_if_exists E f)"
  unfolding remove_if_exists_def
  by (auto intro!: steps_rules preorders keeps_outside_quiet keeps_outside_os_remove
        steps_weaken [OF same_fs_handler_OSError same_fs_keeps_outside] split: option.splits)

lemma keeps_outside_enhance_and_save:
  "in_tree d out \<Longrightarrow> steps (keeps_outside d) (enhance_and_save E g c out)"
  unfolding enhance_and_save_def
  by (auto intro!: steps_rules preorders keeps_outside_quiet keeps_outside_save
        split: prod.splits)

lemma keeps_outside_preprocess_audio:
  "wf_dir d \<Longrightarrow> steps (keeps_outside d) (preprocess_audio E g p d)"
  unfolding preprocess_audio_def Let_def
  by (auto intro!: steps_rules preorders keeps_outside_quiet keeps_outside_os_makedirs
        keeps_outside_ffmpeg keeps_outside_enhance_and_save keeps_outside_remove_if_exists
        enhanced_in_tree conversion_in_tree split: option.splits)

subsection \<open>returns_only\<close>

lemma returns_only_ret: "Y x \<Longrightarrow> returns_only Y (ret x)"
  by (simp add: returns_only_def ret_def)

lemma returns_only_raise: "returns_only Y (raise e)"
  by (simp add: returns_only_def raise_def)

lemma returns_only_andthen: "(\<And>x. returns_only Y (f x)) \<Longrightarrow> returns_only Y (andthen m f)"
  unfolding returns_only_def andthen_def
  by (fastforce split: prod.splits sum.splits)

lemma returns_only_try_except:
  "returns_only Y m \<Longrightarrow> (\<And>e. returns_only Y (h e)) \<Longrightarrow> returns_only Y (try_except m h)"
  unfolding returns_only_def try_except_def
  by (fastforce split: prod.splits sum.splits)

lemma returns_only_try_finally: "returns_only Y m \<Longrightarrow> returns_only Y (try_finally m c)"
  unfolding returns_only_def try_finally_def
  by (fastforce split: prod.splits sum.splits)

lemma ffmpeg_error_handler_never_returns: "returns_only Y (ffmpeg_error_handler E e)"
  unfolding ffmpeg_error_handler_def returns_only_def
  by (auto simp: raise_def split: exc.splits sum.splits)

lemma enhance_and_save_returns: "returns_only (\<lambda>x. x = out) (enhance_and_save E g c out)"
  unfolding enhance_and_save_def
  by (auto intro!: returns_only_andthen returns_only_ret returns_only_raise split: prod.splits)

lemma preprocess_audio_returns:
  "returns_only (\<lambda>x. x = enhanced_path_of E p d) (preprocess_audio E g p d)"
  unfolding preprocess_audio_def Let_def
  by (auto intro!: returns_only_andthen returns_only_raise returns_only_try_except
        returns_only_try_finally enhance_and_save_returns ffmpeg_error_handler_never_returns)

lemma steps_try_except_else_returning:
  "preorder_rel R \<Longrightarrow> steps R m \<Longrightarrow> returns_only Y m \<Longrightarrow> (\<And>e. steps R (h e))
     \<Longrightarrow> (\<And>x. Y x \<Longrightarrow> steps R (f x)) \<Longrightarrow> steps R (try_except_else m h f)"
  unfolding steps_def try_except_else_def preorder_rel_def returns_only_def
  by (auto split: prod.splits sum.splits) (metis snd_conv)+

lemma keeps_outside_transcribe_audio:
  "wf_dir d \<Longrightarrow> steps (keeps_outside d) (transcribe_audio E g p d)"
  unfolding transcribe_audio_def
  by (auto intro!: steps_try_except_else_returning [OF _ _ preprocess_audio_returns]
        steps_ret steps_raise steps_andthen steps_try_finally preorders keeps_outside_quiet
        keeps_outside_preprocess_audio keeps_outside_remove_if_exists enhanced_in_tree)

lemma same_fs_setitem_step:
  "steps same_fs (case py_setitem E v k x of Inl e \<Rightarrow> raise e | Inr a \<Rightarrow> ret (f a))"
  by (cases v) (simp_all add: steps_def same_fs_def ret_def raise_def)

lemma keeps_outside_audit_body:
  "wf_dir d \<Longrightarrow> steps (keeps_outside d) (audit_body E g p d)"
  unfolding audit_body_def
  by (auto intro!: steps_rules preorders keeps_outside_quiet keeps_outside_transcribe_audio
        steps_weaken [OF same_fs_setitem_step same_fs_keeps_outside])

subsection \<open>not_created_unless\<close>

lemma not_created_os_makedirs:
  "q \<noteq> d \<Longrightarrow> q \<notin> set (ancestors d) \<Longrightarrow> steps (not_created_unless q L) (os_makedirs E d)"
  by (simp add: steps_def not_created_unless_def os_makedirs_def split: option.splits)

lemma not_created_ffmpeg:
  "t \<noteq> q \<Longrightarrow> steps (not_created_unless q L) (subprocess_run_ffmpeg E a t)"
  by (auto simp: steps_def not_created_unless_def subprocess_run_ffmpeg_def
        split: ffmpeg_outcome.splits)

lemma not_created_save:
  "t \<noteq> q \<Longrightarrow> steps (not_created_unless q L) (torchaudio_save_file E t w sr)"
  by (auto simp: steps_def not_created_unless_def torchaudio_save_file_def split: option.splits)

lemma not_created_os_remove: "steps (not_created_unless q L) (os_remove E t)"
  by (auto simp: steps_def not_created_unless_def os_remove_def split: option.splits)

lemma not_created_remove_if_exists: "steps (not_created_unless q L) (remove_if_exists E f)"
  unfolding remove_if_exists_def
  by (auto intro!: steps_rules preorders not_created_quiet not_created_os_remove
        steps_weaken [OF same_fs_handler_OSError same_fs_not_created] split: option.splits)

lemma not_created_enhance_and_save:
  "out \<noteq> q \<Longrightarrow> steps (not_created_unless q L) (enhance_and_save E g c out)"
  unfolding enhance_and_save_def
  by (auto intro!: steps_rules preorders not_created_quiet not_created_save split: prod.splits)

subsection \<open>what the cleanup establishes\<close>

lemma remove_if_exists_removes:
  "os_remove_error E t = None \<Longrightarrow> t \<noteq> [] \<Longrightarrow> t \<notin> fs (snd (remove_if_exists E (Some t) s))"
  by (simp add: remove_if_exists_def andthen_def os_path_exists_def try_except_def
        os_remove_def ret_def)

lemma snd_try_finally: "snd (try_finally m c s) = snd (c (snd (m s)))"
  by (simp add: try_finally_def split: prod.splits sum.splits)

lemma not_created_try_finally_removing:
  "os_remove_error E t = None \<Longrightarrow> t \<noteq> []
     \<Longrightarrow> steps (not_created_unless t L) (try_finally m (remove_if_exists E (Some t)))"
  by (simp add: steps_def not_created_unless_def snd_try_finally remove_if_exists_removes)

lemma not_created_preprocess_audio:
  "os_remove_error E (conversion_path_of E p d) = None
     \<Longrightarrow> steps (not_created_unless (conversion_path_of E p d) False) (preprocess_audio E g p d)"
  unfolding preprocess_audio_def Let_def
  by (auto intro!: steps_rules preorders not_created_quiet not_created_os_makedirs
        not_created_try_finally_removing not_created_enhance_and_save
        not_created_remove_if_exists)

subsection \<open>steps_if_raises\<close>

lemma sir_of_steps: "steps R m \<Longrightarrow> steps_if_raises R m"
  unfolding steps_def steps_if_raises_def by (metis snd_conv)

lemma sir_raise: "preorder_rel R \<Longrightarrow> steps_if_raises R (raise e)"
  by (simp add: steps_if_raises_def raise_def preorder_rel_def)

lemma sir_andthen:
  "preorder_rel R \<Longrightarrow> steps R m \<Longrightarrow> (\<And>x. steps_if_raises R (f x))
     \<Longrightarrow> steps_if_raises R (andthen m f)"
  unfolding steps_def steps_if_raises_def andthen_def preorder_rel_def
  by (auto split: prod.splits sum.splits) (metis snd_conv)+

lemma sir_andthen_last:
  "steps_if_raises R m \<Longrightarrow> (\<And>x. raises_only (\<lambda>e. False) (f x))
     \<Longrightarrow> steps_if_raises R (andthen m f)"
  unfolding steps_if_raises_def andthen_def raises_only_def
  by (fastforce split: prod.splits sum.splits)

lemma sir_try_except:
  "preorder_rel R \<Longrightarrow> steps_if_raises R m \<Longrightarrow> (\<And>e. steps R (h e))
     \<Longrightarrow> steps_if_raises R (try_except m h)"
  unfolding steps_def steps_if_raises_def try_except_def preorder_rel_def
  by (auto split: prod.splits sum.splits) (metis snd_conv)+

lemma sir_try_finally:
  "preorder_rel R \<Longrightarrow> steps_if_raises R m \<Longrightarrow> steps R c \<Longrightarrow> raises_only (\<lambda>e. False) c
     \<Longrightarrow> steps_if_raises R (try_finally m c)"
  unfolding steps_def steps_if_raises_def try_finally_def preorder_rel_def raises_only_def
  by (auto split: prod.splits sum.splits) (metis snd_conv)+

lemma sir_save:
  "steps_if_raises (not_created_unless out (save_leaves_output E out))
     (torchaudio_save_file E out w sr)"
  by (auto simp: steps_if_raises_def not_created_unless_def torchaudio_save_file_def
        split: option.splits if_splits)

lemma sir_enhance_and_save:
  "steps_if_raises (not_created_unless out (save_leaves_output E out))
     (enhance_and_save E g c out)"
  unfolding enhance_and_save_def
  by (auto intro!: sir_andthen sir_raise sir_andthen_last [OF sir_save] raises_only_ret
        preorders not_created_quiet split: prod.splits)

lemma sir_preprocess_audio:
  "steps_if_raises
     (not_created_unless (enhanced_path_of E p d) (save_leaves_output E (enhanced_path_of E p d)))
     (preprocess_audio E g p d)"
  unfolding preprocess_audio_def Let_def
  by (auto intro!: sir_andthen sir_raise sir_try_except sir_try_finally sir_enhance_and_save
        steps_ret steps_andthen preorders not_created_quiet not_created_os_makedirs
        not_created_ffmpeg not_created_remove_if_exists remove_if_exists_never_raises
        split: option.splits)

subsection \<open>the enhanced file after transcribe_audio\<close>

lemma transcribe_audio_removes_enhanced:
  assumes "enhanced_path_of E p d \<notin> fs s"
    and "os_remove_error E (enhanced_path_of E p d) = None"
    and "\<not> save_leaves_output E (enhanced_path_of E p d)"
  shows "enhanced_path_of E p d \<notin> fs (snd (transcribe_audio E g p d s))"
proof (cases "\<not> heavy_libs_successfully_imported g \<or> \<not> WhisperModel g
               \<or> \<not> WHISPER_MODEL_INSTANCE g")
  case True
  then show ?thesis
    using assms(1) by (auto simp: transcribe_audio_def raise_def)
next
  case False
  obtain r s1 where run: "preprocess_audio E g p d s = (r, s1)"
    by (cases "preprocess_audio E g p d s")
  show ?thesis
  proof (cases r)
    case (Inl e)
    have "enhanced_path_of E p d \<notin> fs s1"
      using sir_preprocess_audio [of E p d g] run Inl assms(1,3)
      by (auto simp: steps_if_raises_def not_created_unless_def)
    then show ?thesis
      using False run Inl
      by (simp add: transcribe_audio_def try_except_else_def try_finally_def raise_def
            remove_if_exists_def ret_def)
  next
    case (Inr x)
    then have x: "x = enhanced_path_of E p d"
      using preprocess_audio_returns [of E p d g] run by (auto simp: returns_only_def)
    show ?thesis
      using False run Inr x assms(2)
      by (simp add: transcribe_audio_def try_except_else_def snd_try_finally
            remove_if_exists_removes)
  qed
qed

subsection \<open>llm_silent\<close>

lemma llm_silent_call: "\<not> is_llm_event ev \<Longrightarrow> steps llm_silent (call ev r)"
  by (simp add: steps_def llm_silent_def call_def)

lemma llm_silent_os_path_exists: "steps llm_silent (os_path_exists p)"
  by (simp add: steps_def llm_silent_def os_path_exists_def)

lemma llm_silent_os_makedirs: "steps llm_silent (os_makedirs E p)"
  by (simp add: steps_def llm_silent_def os_makedirs_def split: option.splits)

lemma llm_silent_os_remove: "steps llm_silent (os_remove E p)"
  by (simp add: steps_def llm_silent_def os_remove_def split: option.splits)

lemma llm_silent_ffmpeg: "steps llm_silent (subprocess_run_ffmpeg E a t)"
  by (simp add: steps_def llm_silent_def subprocess_run_ffmpeg_def
        split: ffmpeg_outcome.splits prod.splits)

lemma llm_silent_save: "steps llm_silent (torchaudio_save_file E t w sr)"
  by (simp add: steps_def llm_silent_def torchaudio_save_file_def split: option.splits prod.splits)

lemma llm_silent_handler_OSError:
  "steps llm_silent (if isinstance e OSError then ret () else raise e)"
  by (simp add: steps_def llm_silent_def ret_def raise_def)

lemma llm_silent_ffmpeg_error_handler: "steps llm_silent (ffmpeg_error_handler E e)"
  unfolding ffmpeg_error_handler_def steps_def llm_silent_def
  by (auto simp: raise_def ret_def split: sum.splits exc.splits)

lemma llm_silent_remove_if_exists: "steps llm_silent (remove_if_exists E f)"
  unfolding remove_if_exists_def
  by (auto intro!: steps_rules preorders llm_silent_os_path_exists llm_silent_os_remove
        llm_silent_handler_OSError split: option.splits)

lemma llm_silent_enhance_and_save: "steps llm_silent (enhance_and_save E g c out)"
  unfolding enhance_and_save_def
  by (auto intro!: steps_rules preorders llm_silent_call llm_silent_save split: prod.splits)

lemma llm_silent_preprocess_audio: "steps llm_silent (preprocess_audio E g p d)"
  unfolding preprocess_audio_def Let_def
  by (auto intro!: steps_rules preorders llm_silent_os_path_exists llm_silent_os_makedirs
        llm_silent_ffmpeg llm_silent_enhance_and_save llm_silent_remove_if_exists
        llm_silent_ffmpeg_error_handler split: option.splits)

lemma llm_silent_transcribe_audio: "steps llm_silent (transcribe_audio E g p d)"
  unfolding transcribe_audio_def
  by (auto intro!: steps_rules preorders llm_silent_preprocess_audio llm_silent_call
        llm_silent_remove_if_exists)

subsection \<open>the cleanup of the temporary directory\<close>

lemma rmtree_entries_effect:
  "rmtree_entries E ps s = (r, s')
     \<Longrightarrow> trace s' = trace s \<and> fs s' \<subseteq> fs s \<and> fs s - set ps \<subseteq> fs s'"
proof (induction ps arbitrary: s)
  case Nil
  then show ?case
    by (simp add: ret_def)
next
  case (Cons q ps)
  show ?case
  proof (cases "cleanup_unlink_error E q")
    case (Some failure)
    with Cons.prems show ?thesis
      by (cases failure) (auto simp: andthen_def rmtree_unlink_def)
  next
    case None
    with Cons.prems have "rmtree_entries E ps (s\<lparr>fs := fs s - {q}\<rparr>) = (r, s')"
      by (simp add: andthen_def rmtree_unlink_def)
    from Cons.IH [OF this] show ?thesis
      by auto
  qed
qed

lemma exit_trace:
  "trace (snd (exit_temporary_directory E d s)) = trace s @ [RmTempDir d]"
proof -
  define ps where "ps = filter (\<lambda>p. p \<in> fs s \<and> in_tree d p \<and> p \<noteq> d) (cleanup_listing E d)"
  obtain r s1 where run: "rmtree_entries E ps (emit (RmTempDir d) s) = (r, s1)"
    by (cases "rmtree_entries E ps (emit (RmTempDir d) s)")
  from rmtree_entries_effect [OF run] have "trace s1 = trace s @ [RmTempDir d]"
    by simp
  then show ?thesis
    using run
    by (cases r)
       (auto simp: exit_temporary_directory_def andthen_def os_rmdir_def ps_def [symmetric]
          split: option.splits)
qed

lemma exit_returns_fs:
  assumes "fst (exit_temporary_directory E d s) = Inr u"
  shows "fs (snd (exit_temporary_directory E d s)) = {q \<in> fs s. \<not> in_tree d q}"
proof -
  define ps where "ps = filter (\<lambda>p. p \<in> fs s \<and> in_tree d p \<and> p \<noteq> d) (cleanup_listing E d)"
  obtain r s1 where run: "rmtree_entries E ps (emit (RmTempDir d) s) = (r, s1)"
    by (cases "rmtree_entries E ps (emit (RmTempDir d) s)")
  from rmtree_entries_effect [OF run]
  have sub: "fs s1 \<subseteq> fs s" and kept: "fs s - set ps \<subseteq> fs s1"
    by simp_all
  have listed: "q \<in> set ps \<Longrightarrow> in_tree d q" for q
    by (simp add: ps_def)
  from assms run have r: "r = Inr ()"
    by (cases r) (simp_all add: exit_temporary_directory_def andthen_def ps_def [symmetric])
  with assms run have empty: "\<not> (\<exists>p \<in> fs s1. in_tree d p \<and> p \<noteq> d)"
    and after: "snd (exit_temporary_directory E d s) = s1\<lparr>fs := fs s1 - {d}\<rparr>"
    by (auto simp: exit_temporary_directory_def andthen_def os_rmdir_def ps_def [symmetric]
          split: if_splits option.splits)
  have "in_tree d d"
    by (simp add: in_tree_def)
  with sub kept listed empty show ?thesis
    unfolding after by auto
qed

lemma exit_empty_directory:
  assumes "\<forall>q \<in> fs s. in_tree d q \<longrightarrow> q = d" and "cleanup_rmdir_error E d = None"
  shows "fst (exit_temporary_directory E d s) = Inr ()"
proof -
  have "filter (\<lambda>p. p \<in> fs s \<and> in_tree d p \<and> p \<noteq> d) (cleanup_listing E d) = []"
    using assms(1) by (auto simp: filter_empty_conv)
  then show ?thesis
    using assms
    by (auto simp: exit_temporary_directory_def andthen_def os_rmdir_def ret_def)
qed

lemma exit_stuck:
  assumes "cleanup_listing E d = q # rest" and "q \<in> fs s" and "in_tree d q" and "q \<noteq> d"
    and "cleanup_unlink_error E q = Some (c, m)"
  shows "fst (exit_temporary_directory E d s) = Inl (Exc c m)"
    and "q \<in> fs (snd (exit_temporary_directory E d s))"
    and "d \<in> fs s \<Longrightarrow> d \<in> fs (snd (exit_temporary_directory E d s))"
  using assms
  by (simp_all add: exit_temporary_directory_def andthen_def rmtree_unlink_def)

subsection \<open>the orchestrator\<close>

lemma audit_handler_pure: "snd (audit_handler E p e s) = s"
  unfolding audit_handler_def stderr_or_str_def
  by (auto simp: ret_def raise_def split: exc.splits stderr_bytes.splits)

lemma audit_handler_reports:
  "decodable e \<Longrightarrow>
     \<exists>detail. fst (audit_handler E p e s)
                 = Inr (failed_record p (category_text (category_of e) @ detail))"
  unfolding audit_handler_def stderr_or_str_def decodable_def
  by (cases e) (auto simp: ret_def split: stderr_bytes.splits intro: exI [of _ "[]"])

text \<open>The \<open>try\<close> statement inside the \<open>with\<close> block: the stages under their handlers.\<close>

lemma handled_body:
  "try_except (audit_body E g p d) (audit_handler E p) s
     = (case fst (audit_body E g p d s) of
          Inl e \<Rightarrow> fst (audit_handler E p e (snd (audit_body E g p d s)))
        | Inr r \<Rightarrow> Inr r,
        snd (audit_body E g p d s))"
proof -
  obtain r s1 where run: "audit_body E g p d s = (r, s1)"
    by (cases "audit_body E g p d s")
  show ?thesis
  proof (cases r)
    case (Inl e)
    with run show ?thesis
      using audit_handler_pure [of E p e s1]
      by (simp add: try_except_def) (metis prod.collapse)
  next
    case (Inr x)
    with run show ?thesis
      by (simp add: try_except_def)
  qed
qed

lemma fst_perform:
  "fst (perform_full_audio_audit E g p s)
     = (case mkdtemp_error E of
          Some (c, m) \<Rightarrow> Inl (Exc c m)
        | None \<Rightarrow>
            (case cleanup_outcome E g p s of
               Inl e \<Rightarrow> Inl e
             | Inr u \<Rightarrow>
                 (case fst (audit_body E g p (tmpdir_name E) (enter_temporary_directory E s)) of
                    Inl e \<Rightarrow>
                      fst (audit_handler E p e
                             (snd (audit_body E g p (tmpdir_name E)
                                     (enter_temporary_directory E s))))
                  | Inr r \<Rightarrow> Inr r)))"
  by (simp add: perform_full_audio_audit_def with_temporary_directory_def andthen_def
        tempfile_mkdtemp_def try_finally_def handled_body cleanup_outcome_def stages_end_def
        split: option.splits prod.splits sum.splits)

lemma snd_perform:
  "snd (perform_full_audio_audit E g p s)
     = (case mkdtemp_error E of
          Some failure \<Rightarrow> emit (MkTempDir (tmpdir_name E)) s
        | None \<Rightarrow> snd (exit_temporary_directory E (tmpdir_name E) (stages_end E g p s)))"
  by (simp add: perform_full_audio_audit_def with_temporary_directory_def andthen_def
        tempfile_mkdtemp_def try_finally_def handled_body stages_end_def
        split: option.splits prod.splits sum.splits)

subsection \<open>what the stages leave in the directory\<close>

lemma not_created_preprocess_other:
  "q \<noteq> conversion_path_of E p d \<Longrightarrow> q \<noteq> enhanced_path_of E p d \<Longrightarrow> q \<noteq> d
     \<Longrightarrow> q \<notin> set (ancestors d)
     \<Longrightarrow> steps (not_created_unless q False) (preprocess_audio E g p d)"
  unfolding preprocess_audio_def Let_def
  by (auto intro!: steps_rules preorders not_created_quiet not_created_os_makedirs
        not_created_ffmpeg not_created_enhance_and_save not_created_remove_if_exists
        split: option.splits)

lemma not_created_transcribe_audio:
  "steps (not_created_unless q L) (preprocess_audio E g p d)
     \<Longrightarrow> steps (not_created_unless q L) (transcribe_audio E g p d)"
  unfolding transcribe_audio_def
  by (auto intro!: steps_rules preorders not_created_quiet not_created_remove_if_exists)

lemma not_created_audit_body:
  "steps (not_created_unless q L) (transcribe_audio E g p d)
     \<Longrightarrow> steps (not_created_unless q L) (audit_body E g p d)"
  unfolding audit_body_def
  by (auto intro!: steps_rules preorders
        steps_weaken [OF same_fs_analyze_text same_fs_not_created]
        steps_weaken [OF same_fs_setitem_step same_fs_not_created])

lemma not_created_enhanced:
  assumes "os_remove_error E (enhanced_path_of E p d) = None"
    and "\<not> save_leaves_output E (enhanced_path_of E p d)"
  shows "steps (not_created_unless (enhanced_path_of E p d) False) (transcribe_audio E g p d)"
  unfolding steps_def not_created_unless_def
  using transcribe_audio_removes_enhanced [OF _ assms] by blast

lemma below_not_ancestor:
  assumes "in_tree d q" and "q \<noteq> d"
  shows "q \<notin> set (ancestors d)"
proof
  assume "q \<in> set (ancestors d)"
  then have "length q \<le> length d"
    by (rule ancestors_shorter)
  moreover from assms have "length d < length q"
    by (auto simp: in_tree_def prefix_def)
  ultimately show False
    by simp
qed

lemma stages_leave_nothing:
  assumes "\<forall>q \<in> fs s. in_tree d q \<longrightarrow> q = d"
    and "os_remove_error E (conversion_path_of E p d) = None"
    and "os_remove_error E (enhanced_path_of E p d) = None"
    and "\<not> save_leaves_output E (enhanced_path_of E p d)"
  shows "\<forall>q \<in> fs (snd (audit_body E g p d s)). in_tree d q \<longrightarrow> q = d"
proof (intro ballI impI, rule ccontr)
  fix q
  assume q: "q \<in> fs (snd (audit_body E g p d s))" "in_tree d q" "q \<noteq> d"
  have "steps (not_created_unless q False) (transcribe_audio E g p d)"
  proof (cases "q = enhanced_path_of E p d")
    case True
    then show ?thesis
      using not_created_enhanced [OF assms(3,4)] by simp
  next
    case False
    show ?thesis
    proof (cases "q = conversion_path_of E p d")
      case True
      then show ?thesis
        using not_created_transcribe_audio [OF not_created_preprocess_audio [OF assms(2)]]
        by simp
    next
      case other: False
      show ?thesis
        by (rule not_created_transcribe_audio,
            rule not_created_preprocess_other [OF other False q(3) below_not_ancestor [OF q(2,3)]])
    qed
  qed
  from not_created_audit_body [OF this] q(1) have "q \<in> fs s"
    by (auto simp: steps_def not_created_unless_def)
  with assms(1) q(2,3) show False
    by blast
qed

lemma cleanup_succeeds:
  assumes "fresh_temp_dir (tmpdir_name E) s"
    and "os_remove_error E (conversion_path_of E p (tmpdir_name E)) = None"
    and "os_remove_error E (enhanced_path_of E p (tmpdir_name E)) = None"
    and "\<not> save_leaves_output E (enhanced_path_of E p (tmpdir_name E))"
    and "cleanup_rmdir_error E (tmpdir_name E) = None"
  shows "cleanup_outcome E g p s = Inr ()"
proof -
  have "\<forall>q \<in> fs (enter_temporary_directory E s). in_tree (tmpdir_name E) q \<longrightarrow> q = tmpdir_name E"
    using assms(1) by (auto simp: fresh_temp_dir_def enter_temporary_directory_def)
  from stages_leave_nothing [OF this assms(2,3,4)] show ?thesis
    unfolding cleanup_outcome_def stages_end_def
    by (rule exit_empty_directory) (rule assms(5))
qed

subsection \<open>what the invocation returns\<close>

lemma audit_body_raises_decodable:
  "fst (audit_body E g p d s) = Inl e \<Longrightarrow> decodable e"
  using audit_body_raises [of E g p d] unfolding raises_only_def
  by (metis prod.collapse)

lemma failed_record_fields:
  "map_of (failed_record p msg) (ascii ''audio_file'') = Some (PStr (basename p))"
  "map_of (failed_record p msg) (ascii ''error'') = Some (PStr msg)"
  "map_of (failed_record p msg) (ascii ''status'') = Some (PStr (ascii ''FAILED''))"
  by (simp_all add: failed_record_def ascii_def)

lemma category_text_nonempty: "category_text c \<noteq> []"
  by (cases c) (simp_all add: ascii_def)

lemma category_text_inj: "category_text c = category_text c' \<Longrightarrow> c = c'"
  by (cases c; cases c') (simp_all add: ascii_def)

lemma handled_body_reports:
  assumes "fst (audit_body E g p d s) = Inl e"
  shows "\<exists>detail. fst (try_except (audit_body E g p d) (audit_handler E p) s)
                    = Inr (failed_record p (category_text (category_of e) @ detail))"
  using assms audit_handler_reports [OF audit_body_raises_decodable [OF assms]]
  by (simp add: handled_body)

lemma handled_body_returns:
  "\<exists>record. fst (try_except (audit_body E g p d) (audit_handler E p) s) = Inr record"
proof (cases "fst (audit_body E g p d s)")
  case (Inl e)
  from handled_body_reports [OF this] show ?thesis
    by blast
next
  case (Inr r)
  then show ?thesis
    by (simp add: handled_body)
qed

lemma perform_returns:
  assumes "mkdtemp_error E = None" and "cleanup_outcome E g p s = Inr u"
  shows "fst (perform_full_audio_audit E g p s)
           = fst (try_except (audit_body E g p (tmpdir_name E)) (audit_handler E p)
                    (enter_temporary_directory E s))"
  using assms by (simp add: fst_perform handled_body stages_end_def)

lemma perform_returned:
  assumes "fst (perform_full_audio_audit E g p s) = Inr record"
  shows "mkdtemp_error E = None" and "cleanup_outcome E g p s = Inr ()"
    and "fst (try_except (audit_body E g p (tmpdir_name E)) (audit_handler E p)
                (enter_temporary_directory E s)) = Inr record"
  using assms
  by (auto simp: fst_perform handled_body stages_end_def split: option.splits sum.splits)

lemma perform_raised:
  assumes "fst (perform_full_audio_audit E g p s) = Inl e"
  shows "(\<exists>c m. mkdtemp_error E = Some (c, m) \<and> e = Exc c m)
         \<or> (mkdtemp_error E = None \<and> cleanup_outcome E g p s = Inl e)"
proof (cases "mkdtemp_error E")
  case None
  show ?thesis
  proof (cases "cleanup_outcome E g p s")
    case (Inl e')
    with None assms show ?thesis
      by (simp add: fst_perform)
  next
    case (Inr u)
    from perform_returns [OF None Inr] handled_body_returns [of E g p "tmpdir_name E"] assms
    show ?thesis
      by (metis Inl_Inr_False)
  qed
next
  case (Some failure)
  with assms show ?thesis
    by (cases failure) (simp add: fst_perform)
qed

lemma perform_reports_failure:
  assumes "mkdtemp_error E = None" and "cleanup_outcome E g p s = Inr u"
    and "fst (audit_body E g p (tmpdir_name E) (enter_temporary_directory E s)) = Inl e"
  shows "\<exists>detail. fst (perform_full_audio_audit E g p s)
                    = Inr (failed_record p (category_text (category_of e) @ detail))"
  using handled_body_reports [OF assms(3)] by (simp add: perform_returns [OF assms(1,2)])

text \<open>The availability check fails at once, before any stage runs.\<close>

lemma unavailable_body:
  "\<not> heavy_libs_successfully_imported g \<or> \<not> WHISPER_MODEL_INSTANCE g \<Longrightarrow>
     audit_body E g p d s
       = (Inl (Exc ImportError (ascii
            ''Core audio processing components are not available for a full audit.'')), s)"
  by (auto simp: audit_body_def raise_def)

section \<open>Running the stages\<close>

subsection \<open>results of programs\<close>

lemma fst_ret [simp]: "fst (ret x s) = Inr x"
  by (simp add: ret_def)

lemma fst_raise [simp]: "fst (raise e s) = Inl e"
  by (simp add: raise_def)

lemma fst_announce [simp]: "fst (announce ev s) = Inr ()"
  by (simp add: announce_def)

lemma fst_andthen:
  "fst (andthen m f s) = (case fst (m s) of Inl e \<Rightarrow> Inl e | Inr x \<Rightarrow> fst (f x (snd (m s))))"
  by (simp add: andthen_def split: prod.splits sum.splits)

lemma fst_try_except:
  "fst (try_except m h s)
     = (case fst (m s) of Inl e \<Rightarrow> fst (h e (snd (m s))) | Inr x \<Rightarrow> Inr x)"
  by (simp add: try_except_def split: prod.splits sum.splits)

lemma fst_try_except_else:
  "fst (try_except_else m h f s)
     = (case fst (m s) of Inl e \<Rightarrow> fst (h e (snd (m s))) | Inr x \<Rightarrow> fst (f x (snd (m s))))"
  by (simp add: try_except_else_def split: prod.splits sum.splits)

lemma fst_try_finally_quiet:
  "raises_only (\<lambda>e. False) c \<Longrightarrow> fst (try_finally m c s) = fst (m s)"
  unfolding raises_only_def try_finally_def
  by (auto split: prod.splits sum.splits)

lemma fst_try_finally_remove [simp]:
  "fst (try_finally m (remove_if_exists E f) s) = fst (m s)"
  by (rule fst_try_finally_quiet [OF remove_if_exists_never_raises])

lemma fst_call [simp]:
  "fst (call ev r s) = (case r of Inl (c, m) \<Rightarrow> Inl (Exc c m) | Inr x \<Rightarrow> Inr x)"
  by (simp add: call_def)

lemma fst_os_path_exists [simp]: "fst (os_path_exists p s) = Inr (p \<in> fs s)"
  by (simp add: os_path_exists_def)

lemma fst_os_makedirs:
  "os_makedirs_error E p = None \<Longrightarrow> fst (os_makedirs E p s) = Inr ()"
  by (simp add: os_makedirs_def)

lemma fst_ffmpeg:
  "run_ffmpeg E a b = Completed \<Longrightarrow> fst (subprocess_run_ffmpeg E a b s) = Inr ()"
  by (simp add: subprocess_run_ffmpeg_def)

lemma fst_save:
  "torchaudio_save E p w sr = None \<Longrightarrow> fst (torchaudio_save_file E p w sr s) = Inr ()"
  by (simp add: torchaudio_save_file_def)

lemmas fst_rules = fst_andthen fst_try_except fst_try_except_else fst_os_makedirs fst_ffmpeg
  fst_save

lemma ready_simps [simp]:
  "heavy_libs_successfully_imported ready" "torch ready" "torchaudio ready"
  "WhisperModel ready" "denoise_func ready" "enhance_func ready"
  "WHISPER_MODEL_INSTANCE ready" "ollama ready"
  by (simp_all add: ready_def)

subsection \<open>the recording is transcribed when every capability succeeds\<close>

lemma demo_transcribe:
  assumes "demo_path \<in> fs s"
  shows "fst (transcribe_audio demo_env ready demo_path d s) = Inr (ascii ''hello'')"
    and "fst (transcribe_audio busy_env ready demo_path d s) = Inr (ascii ''hello'')"
    and "fst (transcribe_audio blank_env ready demo_path d s) = Inr [32, 10]"
    and "fst (transcribe_audio conflicting_env ready demo_path d s) = Inr (ascii ''hello'')"
    and "fst (transcribe_audio stuck_env ready demo_path d s) = Inr [32, 10]"
  using assms
  by (simp_all add: transcribe_audio_def preprocess_audio_def enhance_and_save_def Let_def
        fst_rules demo_env_def busy_env_def blank_env_def conflicting_env_def stuck_env_def
        split: option.splits)

subsection \<open>evaluating paths\<close>

lemma demo_basename: "basename demo_path = ascii ''call.mp3''"
  unfolding demo_path_def by code_simp

lemma demo_splitext: "splitext (ascii ''call.mp3'') = (ascii ''call'', ascii ''.mp3'')"
  by code_simp

lemma demo_enhanced_path:
  "enhanced_path_of demo_env demo_path (ascii ''/work'') = ascii ''/work/call_enhanced_0a1b2c3d.wav''"
  unfolding demo_env_def demo_path_def by code_simp

lemma supported_examples:
  "\<not> is_supported_audio (ascii ''readme.txt'')" "\<not> is_supported_audio (ascii ''doc.pdf'')"
  by code_simp+

lemma demo_tmp_enhanced_path:
  "enhanced_path_of demo_env demo_path (ascii ''/tmp/audio_audit_k3x9'')
     = ascii ''/tmp/audio_audit_k3x9/call_enhanced_0a1b2c3d.wav''"
  unfolding demo_env_def demo_path_def by code_simp

subsection \<open>the cleanup in the concrete worlds\<close>

lemma demo_fresh: "fresh_temp_dir (tmpdir_name demo_env) demo_state"
  unfolding demo_env_def demo_state_def by code_simp

lemma quiet_world_cleanup:
  assumes "tmpdir_name E = tmpdir_name demo_env" and "os_remove_error E = (\<lambda>p. None)"
    and "save_leaves_output E = (\<lambda>p. False)" and "cleanup_rmdir_error E = (\<lambda>d. None)"
  shows "cleanup_outcome E g p demo_state = Inr ()"
  by (rule cleanup_succeeds) (simp_all add: assms demo_fresh)

lemma demo_cleanup:
  "cleanup_outcome demo_env g p demo_state = Inr ()"
  "cleanup_outcome blank_env g p demo_state = Inr ()"
  "cleanup_outcome conflicting_env g p demo_state = Inr ()"
  by (rule quiet_world_cleanup; simp add: demo_env_def blank_env_def conflicting_env_def)+

lemma demo_created:
  "mkdtemp_error demo_env = None" "mkdtemp_error blank_env = None"
  "mkdtemp_error conflicting_env = None" "mkdtemp_error stuck_env = None"
  by (simp_all add: demo_env_def blank_env_def conflicting_env_def stuck_env_def)

lemma demo_state_has_recording: "demo_path \<in> fs (enter_temporary_directory E demo_state)"
  by (simp add: enter_temporary_directory_def demo_state_def demo_path_def)

section \<open>Temporary files of the stages\<close>

subsection \<open>returns_in\<close>

lemma returns_in_raise: "returns_in P (raise e)"
  by (simp add: returns_in_def raise_def)

lemma returns_in_andthen: "(\<And>x. returns_in P (f x)) \<Longrightarrow> returns_in P (andthen m f)"
  unfolding returns_in_def andthen_def
  by (fastforce split: prod.splits sum.splits)

lemma returns_in_andthen_ret: "returns_in P m \<Longrightarrow> returns_in P (andthen m (\<lambda>x. ret (f x)))"
  unfolding returns_in_def andthen_def ret_def
  by (fastforce split: prod.splits sum.splits)

lemma returns_in_try_except:
  "returns_in P m \<Longrightarrow> (\<And>e. returns_in P (h e)) \<Longrightarrow> returns_in P (try_except m h)"
  unfolding returns_in_def try_except_def
  by (fastforce split: prod.splits sum.splits)

lemma returns_in_try_finally:
  "returns_in P m \<Longrightarrow> (\<And>s. P s \<Longrightarrow> P (snd (c s))) \<Longrightarrow> returns_in P (try_finally m c)"
  unfolding returns_in_def try_finally_def
  by (auto split: prod.splits sum.splits) (metis snd_conv)

lemma returns_in_save: "returns_in (\<lambda>s. out \<in> fs s) (torchaudio_save_file E out w sr)"
  by (auto simp: returns_in_def torchaudio_save_file_def split: option.splits if_splits)

lemma ffmpeg_error_handler_returns_in: "returns_in P (ffmpeg_error_handler E e)"
  unfolding ffmpeg_error_handler_def returns_in_def
  by (auto simp: raise_def split: exc.splits sum.splits)

lemma remove_other_keeps:
  "f \<noteq> Some q \<Longrightarrow> q \<in> fs s \<Longrightarrow> q \<in> fs (snd (remove_if_exists E f s))"
  by (auto simp: remove_if_exists_def andthen_def os_path_exists_def try_except_def
        os_remove_def ret_def raise_def split: option.splits)

lemma failed_removal_keeps:
  "os_remove_error E q = Some m \<Longrightarrow> q \<in> fs s
     \<Longrightarrow> q \<in> fs (snd (remove_if_exists E (Some q) s))"
  by (auto simp: remove_if_exists_def andthen_def os_path_exists_def try_except_def
        os_remove_def ret_def raise_def split: option.splits)

lemma enhance_and_save_leaves_output:
  "returns_in (\<lambda>s. out \<in> fs s) (enhance_and_save E g c out)"
  unfolding enhance_and_save_def
  by (auto intro!: returns_in_andthen returns_in_raise returns_in_andthen_ret returns_in_save
        split: prod.splits)

lemma preprocess_audio_leaves_output:
  "returns_in (\<lambda>s. enhanced_path_of E p d \<in> fs s) (preprocess_audio E g p d)"
  unfolding preprocess_audio_def Let_def
  by (auto intro!: returns_in_andthen returns_in_raise returns_in_try_except
        returns_in_try_finally enhance_and_save_leaves_output ffmpeg_error_handler_returns_in
        remove_other_keeps)

lemma snd_call [simp]: "snd (call ev r s) = emit ev s"
  by (simp add: call_def)

lemma transcribe_audio_keeps_enhanced:
  assumes "heavy_libs_successfully_imported g" and "WhisperModel g"
    and "WHISPER_MODEL_INSTANCE g"
    and "fst (preprocess_audio E g p d s) = Inr x"
    and "os_remove_error E (enhanced_path_of E p d) = Some m"
  shows "enhanced_path_of E p d \<in> fs (snd (transcribe_audio E g p d s))"
proof -
  obtain s1 where run: "preprocess_audio E g p d s = (Inr x, s1)"
    using assms(4) by (cases "preprocess_audio E g p d s") auto
  have x: "x = enhanced_path_of E p d"
    using preprocess_audio_returns [of E p d g] run by (auto simp: returns_only_def)
  have "enhanced_path_of E p d \<in> fs s1"
    using preprocess_audio_leaves_output [of E p d g] run by (auto simp: returns_in_def)
  then have "enhanced_path_of E p d
               \<in> fs (snd (andthen (call (WhisperTranscribe x) (whisper_transcribe E x))
                             (\<lambda>segments. ret (concat segments)) s1))"
    by (simp add: andthen_def ret_def split: prod.splits sum.splits)
       (metis fs_emit snd_call snd_conv)
  then show ?thesis
    using assms(1,2,3,5) run x
    by (simp add: transcribe_audio_def try_except_else_def snd_try_finally failed_removal_keeps)
qed

lemma demo_preprocess:
  assumes "demo_path \<in> fs s"
  shows "fst (preprocess_audio busy_env ready demo_path d s)
           = Inr (enhanced_path_of busy_env demo_path d)"
  using assms
  by (simp add: preprocess_audio_def enhance_and_save_def Let_def fst_rules busy_env_def
        demo_env_def split: option.splits)

lemma demo_conversion_path:
  "conversion_path_of demo_env demo_path (ascii ''/work'')
     = ascii ''/work/call_temp_conversion_4e5f6a7b.wav''"
  unfolding demo_env_def demo_path_def by code_simp

lemma busy_enhanced_path:
  "enhanced_path_of busy_env demo_path (ascii ''/work'') = ascii ''/work/call_enhanced_0a1b2c3d.wav''"
  using demo_enhanced_path by (simp add: enhanced_path_of_def busy_env_def)

lemma demo_state_recording: "demo_path \<in> fs demo_state"
  by (simp add: demo_state_def demo_path_def)

subsection \<open>a world in which no file can be removed\<close>

lemma stuck_enhanced_path:
  "enhanced_path_of stuck_env demo_path (tmpdir_name stuck_env)
     = ascii ''/tmp/audio_audit_k3x9/call_enhanced_0a1b2c3d.wav''"
proof -
  have "enhanced_path_of stuck_env demo_path (tmpdir_name stuck_env)
          = enhanced_path_of demo_env demo_path (ascii ''/tmp/audio_audit_k3x9'')"
    by (simp add: enhanced_path_of_def stuck_env_def blank_env_def demo_env_def)
  then show ?thesis
    by (simp add: demo_tmp_enhanced_path)
qed

lemma stuck_preprocess:
  assumes "demo_path \<in> fs s"
  shows "fst (preprocess_audio stuck_env ready demo_path d s)
           = Inr (enhanced_path_of stuck_env demo_path d)"
  using assms
  by (simp add: preprocess_audio_def enhance_and_save_def Let_def fst_rules stuck_env_def
        blank_env_def demo_env_def split: option.splits)

lemma stuck_world:
  "os_remove_error stuck_env q = Some (ascii ''Permission denied'')"
  "cleanup_unlink_error stuck_env q = Some (PermissionError, ascii ''Permission denied'')"
  "cleanup_listing stuck_env d
     = [ascii ''/tmp/audio_audit_k3x9/call_enhanced_0a1b2c3d.wav'',
        ascii ''/tmp/audio_audit_k3x9/call_temp_conversion_4e5f6a7b.wav'']"
  "tmpdir_name stuck_env = ascii ''/tmp/audio_audit_k3x9''"
  by (simp_all add: stuck_env_def blank_env_def demo_env_def)

lemma blank_is_space: "\<forall>c \<in> set [32, 10]. py_isspace c"
  by (simp add: py_isspace_def)

section \<open>Runs of the orchestrator\<close>

lemma py_strip_blank: "py_strip t = [] \<longleftrightarrow> (\<forall>c \<in> set t. py_isspace c)"
proof
  assume "py_strip t = []"
  then have "\<forall>x \<in> set (dropWhile py_isspace t). py_isspace x"
    by (simp add: py_strip_def)
  then have "dropWhile py_isspace t = []"
    by (metis hd_dropWhile list.set_sel(1))
  then show "\<forall>c \<in> set t. py_isspace c"
    by simp
next
  assume "\<forall>c \<in> set t. py_isspace c"
  then show "py_strip t = []"
    by (auto simp: py_strip_def dest: set_dropWhileD)
qed

lemma audit_body_blank:
  assumes "heavy_libs_successfully_imported g" and "WHISPER_MODEL_INSTANCE g"
    and "fst (transcribe_audio E g p d s) = Inr t" and "py_strip t = []"
  shows "fst (audit_body E g p d s)
           = Inr [(ascii ''audio_file'', PStr (basename p)),
                  (ascii ''transcription'', PStr []),
                  (ascii ''sentiment'', PStr SENTIMENT_UNKNOWN),
                  (ascii ''compliance_issues'', PList [PStr (ascii ''Empty transcription'')]),
                  (ascii ''summary'', PStr no_analysis_summary)]"
    and "snd (audit_body E g p d s) = snd (transcribe_audio E g p d s)"
proof -
  obtain r s1 where run: "transcribe_audio E g p d s = (r, s1)"
    by (cases "transcribe_audio E g p d s")
  with assms(3) have r: "r = Inr t"
    by simp
  show "fst (audit_body E g p d s)
           = Inr [(ascii ''audio_file'', PStr (basename p)),
                  (ascii ''transcription'', PStr []),
                  (ascii ''sentiment'', PStr SENTIMENT_UNKNOWN),
                  (ascii ''compliance_issues'', PList [PStr (ascii ''Empty transcription'')]),
                  (ascii ''summary'', PStr no_analysis_summary)]"
    using assms(1,2,4) run r
    by (simp add: audit_body_def andthen_def ret_def analysis_dict_def)
  show "snd (audit_body E g p d s) = snd (transcribe_audio E g p d s)"
    using assms(1,2,4) run r
    by (simp add: audit_body_def andthen_def ret_def)
qed

lemma llm_events_enter [simp]: "llm_events (enter_temporary_directory E s) = llm_events s"
  by (simp add: enter_temporary_directory_def)

lemma llm_events_exit [simp]:
  "llm_events (snd (exit_temporary_directory E d s)) = llm_events s"
  by (simp add: llm_events_def exit_trace)

lemma transcribe_audio_llm_events:
  "llm_events (snd (transcribe_audio E g p d s)) = llm_events s"
  using llm_silent_transcribe_audio [of E g p d] by (simp add: steps_def llm_silent_def)

lemma blank_perform:
  assumes "heavy_libs_successfully_imported g" and "WHISPER_MODEL_INSTANCE g"
    and "mkdtemp_error E = None"
    and "fst (transcribe_audio E g p (tmpdir_name E) (enter_temporary_directory E s)) = Inr t"
    and "\<forall>c \<in> set t. py_isspace c"
  shows "cleanup_outcome E g p s = Inr ()
           \<Longrightarrow> fst (perform_full_audio_audit E g p s)
                 = Inr [(ascii ''audio_file'', PStr (basename p)),
                        (ascii ''transcription'', PStr []),
                        (ascii ''sentiment'', PStr SENTIMENT_UNKNOWN),
                        (ascii ''compliance_issues'', PList [PStr (ascii ''Empty transcription'')]),
                        (ascii ''summary'', PStr no_analysis_summary)]"
    and "llm_events (snd (perform_full_audio_audit E g p s)) = llm_events s"
    and "stages_end E g p s
           = snd (transcribe_audio E g p (tmpdir_name E) (enter_temporary_directory E s))"
proof -
  have blank: "py_strip t = []"
    using assms(5) by (simp add: py_strip_blank)
  show ends: "stages_end E g p s
           = snd (transcribe_audio E g p (tmpdir_name E) (enter_temporary_directory E s))"
    by (simp add: stages_end_def audit_body_blank(2) [OF assms(1,2,4) blank])
  show "cleanup_outcome E g p s = Inr ()
           \<Longrightarrow> fst (perform_full_audio_audit E g p s)
                 = Inr [(ascii ''audio_file'', PStr (basename p)),
                        (ascii ''transcription'', PStr []),
                        (ascii ''sentiment'', PStr SENTIMENT_UNKNOWN),
                        (ascii ''compliance_issues'', PList [PStr (ascii ''Empty transcription'')]),
                        (ascii ''summary'', PStr no_analysis_summary)]"
    by (simp add: perform_returns [OF assms(3)] handled_body
          audit_body_blank(1) [OF assms(1,2,4) blank])
  show "llm_events (snd (perform_full_audio_audit E g p s)) = llm_events s"
    by (simp add: snd_perform assms(3) ends transcribe_audio_llm_events)
qed

text \<open>
  Where no file can be removed, the enhanced file outlives \<open>transcribe_audio\<close>, the cleanup
  of the temporary directory meets it and cannot unlink it, and the invocation ends with
  the exception of the cleanup.
\<close>

lemma stuck_perform:
  "fst (perform_full_audio_audit stuck_env ready demo_path demo_state)
     = Inl (Exc PermissionError (ascii ''Permission denied''))"
proof -
  define d where "d = tmpdir_name stuck_env"
  define s1 where "s1 = enter_temporary_directory stuck_env demo_state"
  define q where "q = enhanced_path_of stuck_env demo_path d"
  have rec: "demo_path \<in> fs s1"
    unfolding s1_def by (rule demo_state_has_recording)
  have wf: "wf_dir d"
    unfolding d_def wf_dir_def stuck_world(4) by code_simp
  have left: "q \<in> fs (snd (transcribe_audio stuck_env ready demo_path d s1))"
    unfolding q_def
    by (rule transcribe_audio_keeps_enhanced
               [OF ready_simps(1) ready_simps(4) ready_simps(7) stuck_preprocess [OF rec]
                   stuck_world(1)])
  have ends: "stages_end stuck_env ready demo_path demo_state
                = snd (transcribe_audio stuck_env ready demo_path d s1)"
    unfolding d_def s1_def
    by (rule blank_perform(3)
               [OF ready_simps(1) ready_simps(7) demo_created(4)
                   demo_transcribe(5) [OF demo_state_has_recording] blank_is_space])
  have listing: "cleanup_listing stuck_env d
                   = q # [ascii ''/tmp/audio_audit_k3x9/call_temp_conversion_4e5f6a7b.wav'']"
    by (simp add: stuck_world(3) q_def d_def stuck_enhanced_path)
  have "cleanup_outcome stuck_env ready demo_path demo_state
          = Inl (Exc PermissionError (ascii ''Permission denied''))"
    unfolding cleanup_outcome_def ends d_def [symmetric]
    by (rule exit_stuck(1) [OF listing left _ _ stuck_world(2)])
       (simp_all add: q_def enhanced_in_tree [OF wf])
  then show ?thesis
    by (simp add: fst_perform demo_created)
qed

section \<open>Failures of the stages become records\<close>

text \<open>
  Claim C2, as the code has it. No failure of a stage reaches the caller of
  \<open>perform_full_audio_audit\<close>. When the temporary working directory is created and its
  cleanup raises nothing, the invocation returns a dict, and whenever the audited stages
  (the availability check, \<open>transcribe_audio\<close>, \<open>analyze_text\<close>, the merge of the result)
  ended with an exception \<open>e\<close>, that dict carries the base name of the input under
  \<open>audio_file\<close>, the status \<open>FAILED\<close>, and under \<open>error\<close> a string that opens with the text
  dedicated to the failure category of \<open>e\<close>; the five texts are pairwise different. An
  exception that does reach the caller is the one \<open>mkdtemp\<close> raised or the one the cleanup
  of the directory raised: the \<open>with\<close> statement of line 196 encloses the \<open>try\<close> of line 197
  and is covered by none of its clauses. (A \<open>CalledProcessError\<close> whose captured output
  does not decode never reaches the orchestrator: the handler inside \<open>preprocess_audio\<close>
  has already turned it into a \<open>UnicodeDecodeError\<close>, which is a \<open>ValueError\<close>.)
\<close>

theorem stage_failures_never_reach_the_caller:
  "(mkdtemp_error E = None \<and> cleanup_outcome E g p s = Inr ()
      \<longrightarrow> (\<exists>record. fst (perform_full_audio_audit E g p s) = Inr record
             \<and> (\<forall>e. fst (audit_body E g p (tmpdir_name E) (enter_temporary_directory E s)) = Inl e
                    \<longrightarrow> (\<exists>detail.
                           map_of record (ascii ''audio_file'') = Some (PStr (basename p))
                           \<and> map_of record (ascii ''error'')
                               = Some (PStr (category_text (category_of e) @ detail))
                           \<and> map_of record (ascii ''status'') = Some (PStr (ascii ''FAILED''))))))
   \<and> (\<forall>e. fst (perform_full_audio_audit E g p s) = Inl e
          \<longrightarrow> (\<exists>c m. mkdtemp_error E = Some (c, m) \<and> e = Exc c m)
              \<or> (mkdtemp_error E = None \<and> cleanup_outcome E g p s = Inl e))
   \<and> (\<forall>c c'. category_text c = category_text c' \<longrightarrow> c = c')"
proof (intro conjI impI allI)
  assume ok: "mkdtemp_error E = None \<and> cleanup_outcome E g p s = Inr ()"
  then have created: "mkdtemp_error E = None" and cleaned: "cleanup_outcome E g p s = Inr ()"
    by simp_all
  show "\<exists>record. fst (perform_full_audio_audit E g p s) = Inr record
          \<and> (\<forall>e. fst (audit_body E g p (tmpdir_name E) (enter_temporary_directory E s)) = Inl e
                 \<longrightarrow> (\<exists>detail.
                        map_of record (ascii ''audio_file'') = Some (PStr (basename p))
                        \<and> map_of record (ascii ''error'')
                            = Some (PStr (category_text (category_of e) @ detail))
                        \<and> map_of record (ascii ''status'') = Some (PStr (ascii ''FAILED''))))"
  proof (cases "fst (audit_body E g p (tmpdir_name E) (enter_temporary_directory E s))")
    case (Inl e)
    from perform_reports_failure [OF created cleaned Inl] obtain detail where
      "fst (perform_full_audio_audit E g p s)
         = Inr (failed_record p (category_text (category_of e) @ detail))" ..
    with Inl show ?thesis
      by (auto simp: failed_record_fields)
  next
    case (Inr r)
    then show ?thesis
      by (simp add: perform_returns [OF created cleaned] handled_body)
  qed
next
  fix e
  assume "fst (perform_full_audio_audit E g p s) = Inl e"
  then show "(\<exists>c m. mkdtemp_error E = Some (c, m) \<and> e = Exc c m)
               \<or> (mkdtemp_error E = None \<and> cleanup_outcome E g p s = Inl e)"
    by (rule perform_raised)
next
  fix c c'
  assume "category_text c = category_text c'"
  then show "c = c'"
    by (rule category_text_inj)
qed

lemma unavailable_guard:
  "\<not> heavy_libs_successfully_imported unavailable \<or> \<not> WHISPER_MODEL_INSTANCE unavailable"
  by (simp add: unavailable_def)

theorem stage_failures_never_reach_the_caller_witness:
  "mkdtemp_error demo_env = None
   \<and> cleanup_outcome demo_env unavailable demo_path demo_state = Inr ()
   \<and> fst (audit_body demo_env unavailable demo_path (tmpdir_name demo_env)
            (enter_temporary_directory demo_env demo_state))
       = Inl (Exc ImportError (ascii
           ''Core audio processing components are not available for a full audit.''))
   \<and> (\<exists>record detail.
         fst (perform_full_audio_audit demo_env unavailable demo_path demo_state) = Inr record
         \<and> map_of record (ascii ''audio_file'') = Some (PStr (basename demo_path))
         \<and> map_of record (ascii ''error'')
             = Some (PStr (category_text CapabilityUnavailable @ detail))
         \<and> map_of record (ascii ''status'') = Some (PStr (ascii ''FAILED'')))"
proof -
  have raised:
    "fst (audit_body demo_env unavailable demo_path (tmpdir_name demo_env)
            (enter_temporary_directory demo_env demo_state))
       = Inl (Exc ImportError (ascii
           ''Core audio processing components are not available for a full audit.''))"
    by (simp add: unavailable_body [OF unavailable_guard])
  from stage_failures_never_reach_the_caller [of demo_env unavailable demo_path demo_state]
       raised demo_created(1) demo_cleanup(1) [of unavailable demo_path]
  show ?thesis
    by fastforce
qed

text \<open>
  The claim as stated has the invocation never propagate an exception. In the world where
  the temporary files can be removed neither by \<open>os.remove\<close> nor by the cleanup of the
  temporary directory, the stages end well (the transcript is a blank and a line feed),
  and the invocation raises the \<open>PermissionError\<close> of the cleanup.
\<close>

theorem audit_raises_when_the_cleanup_fails:
  "os_remove_error stuck_env (ascii ''/tmp/audio_audit_k3x9/call_enhanced_0a1b2c3d.wav'')
     = Some (ascii ''Permission denied'')
   \<and> cleanup_unlink_error stuck_env (ascii ''/tmp/audio_audit_k3x9/call_enhanced_0a1b2c3d.wav'')
       = Some (PermissionError, ascii ''Permission denied'')
   \<and> fst (transcribe_audio stuck_env ready demo_path (tmpdir_name stuck_env)
            (enter_temporary_directory stuck_env demo_state)) = Inr [32, 10]
   \<and> fst (perform_full_audio_audit stuck_env ready demo_path demo_state)
       = Inl (Exc PermissionError (ascii ''Permission denied''))"
  using stuck_perform stuck_world(1,2)
        demo_transcribe(5) [OF demo_state_has_recording, of "tmpdir_name stuck_env" stuck_env]
  by simp

section \<open>Blank transcripts\<close>

text \<open>
  Claim C4, as the code has it. When the availability check passes, the temporary working
  directory is created, \<open>transcribe_audio\<close> returns a transcript that is empty or consists
  of whitespace only, and the cleanup of the directory raises nothing,
  \<open>perform_full_audio_audit\<close> returns a record that is not a failure record (it has no
  \<open>error\<close> and no \<open>status\<close> entry): the base name of the input, the empty transcription,
  the unknown sentiment marker, the one compliance issue \<open>Empty transcription\<close> (with a
  capital E) and the summary saying that no analysis was possible. \<open>analyze_text\<close> is not
  called and the language-model service is not contacted: the trace gains no such event.
\<close>

theorem blank_transcript_short_circuits:
  assumes "heavy_libs_successfully_imported g" and "WHISPER_MODEL_INSTANCE g"
    and "mkdtemp_error E = None"
    and "fst (transcribe_audio E g p (tmpdir_name E) (enter_temporary_directory E s)) = Inr t"
    and "\<forall>c \<in> set t. py_isspace c"
    and "cleanup_outcome E g p s = Inr ()"
  shows "fst (perform_full_audio_audit E g p s)
           = Inr [(ascii ''audio_file'', PStr (basename p)),
                  (ascii ''transcription'', PStr []),
                  (ascii ''sentiment'', PStr SENTIMENT_UNKNOWN),
                  (ascii ''compliance_issues'', PList [PStr (ascii ''Empty transcription'')]),
                  (ascii ''summary'', PStr no_analysis_summary)]
         \<and> llm_events (snd (perform_full_audio_audit E g p s)) = llm_events s"
  using blank_perform(1,2) [OF assms(1,2,3,4,5)] assms(6) by simp

theorem blank_transcript_short_circuits_witness:
  "heavy_libs_successfully_imported ready \<and> WHISPER_MODEL_INSTANCE ready
   \<and> mkdtemp_error blank_env = None
   \<and> fst (transcribe_audio blank_env ready demo_path (tmpdir_name blank_env)
            (enter_temporary_directory blank_env demo_state)) = Inr [32, 10]
   \<and> py_isspace 32 \<and> py_isspace 10
   \<and> cleanup_outcome blank_env ready demo_path demo_state = Inr ()
   \<and> fst (perform_full_audio_audit blank_env ready demo_path demo_state)
       = Inr [(ascii ''audio_file'', PStr (basename demo_path)),
              (ascii ''transcription'', PStr []),
              (ascii ''sentiment'', PStr SENTIMENT_UNKNOWN),
              (ascii ''compliance_issues'', PList [PStr (ascii ''Empty transcription'')]),
              (ascii ''summary'', PStr no_analysis_summary)]
   \<and> llm_events (snd (perform_full_audio_audit blank_env ready demo_path demo_state))
       = llm_events demo_state"
  using blank_transcript_short_circuits
          [OF ready_simps(1) ready_simps(7) demo_created(2)
              demo_transcribe(3) [OF demo_state_has_recording] blank_is_space demo_cleanup(2)]
        demo_transcribe(3) [OF demo_state_has_recording, of "tmpdir_name blank_env" blank_env]
        blank_is_space demo_created(2) demo_cleanup(2) [of ready demo_path]
  by simp

text \<open>
  The claim as stated names the issue \<open>empty transcription\<close> and has the record returned
  for every blank transcript. For a recording whose transcript is a blank and a line feed
  the entry is \<open>Empty transcription\<close>; and in the world where the temporary files cannot
  be removed, the same transcript ends in the exception of the cleanup, not in a record.
\<close>

theorem blank_transcript_issue_is_capitalised:
  "py_isspace 32 \<and> py_isspace 10
   \<and> fst (transcribe_audio blank_env ready demo_path (tmpdir_name blank_env)
            (enter_temporary_directory blank_env demo_state)) = Inr [32, 10]
   \<and> fst (perform_full_audio_audit blank_env ready demo_path demo_state)
       = Inr [(ascii ''audio_file'', PStr (ascii ''call.mp3'')),
              (ascii ''transcription'', PStr []),
              (ascii ''sentiment'', PStr SENTIMENT_UNKNOWN),
              (ascii ''compliance_issues'', PList [PStr (ascii ''Empty transcription'')]),
              (ascii ''summary'', PStr no_analysis_summary)]
   \<and> PList [PStr (ascii ''Empty transcription'')] \<noteq> PList [PStr (ascii ''empty transcription'')]
   \<and> fst (transcribe_audio stuck_env ready demo_path (tmpdir_name stuck_env)
            (enter_temporary_directory stuck_env demo_state)) = Inr [32, 10]
   \<and> fst (perform_full_audio_audit stuck_env ready demo_path demo_state)
       = Inl (Exc PermissionError (ascii ''Permission denied''))"
  using blank_perform(1)
          [OF ready_simps(1) ready_simps(7) demo_created(2)
              demo_transcribe(3) [OF demo_state_has_recording] blank_is_space demo_cleanup(2)]
        demo_transcribe(3) [OF demo_state_has_recording, of "tmpdir_name blank_env" blank_env]
        demo_transcribe(5) [OF demo_state_has_recording, of "tmpdir_name stuck_env" stuck_env]
        stuck_perform
  by (simp add: demo_basename py_isspace_def) (simp add: ascii_def)

section \<open>The temporary directory\<close>

lemma fresh_wf_dir: "fresh_temp_dir d s \<Longrightarrow> wf_dir d"
  by (simp add: fresh_temp_dir_def wf_dir_def)

lemma perform_restores_fs:
  assumes "fresh_temp_dir (tmpdir_name E) s"
    and "fst (perform_full_audio_audit E g p s) = Inr record"
  shows "fs (snd (perform_full_audio_audit E g p s)) = fs s"
proof -
  define d where "d = tmpdir_name E"
  define s1 where "s1 = enter_temporary_directory E s"
  define s2 where "s2 = stages_end E g p s"
  have created: "mkdtemp_error E = None" and cleaned: "cleanup_outcome E g p s = Inr ()"
    using perform_returned(1,2) [OF assms(2)] by simp_all
  have s1: "fs s1 = fs s \<union> {d}"
    by (simp add: s1_def d_def enter_temporary_directory_def)
  have "keeps_outside d s1 s2"
    using keeps_outside_audit_body [OF fresh_wf_dir [OF assms(1)], of E g p]
    by (simp add: steps_def s2_def s1_def stages_end_def d_def)
  then have outside: "\<not> in_tree d q \<Longrightarrow> q \<in> fs s2 \<longleftrightarrow> q \<in> fs s1" for q
    using s1 by (simp add: keeps_outside_def)
  have fresh: "q \<in> fs s \<Longrightarrow> \<not> in_tree d q" for q
    using assms(1) by (auto simp: fresh_temp_dir_def d_def)
  have "fs (snd (exit_temporary_directory E d s2)) = {q \<in> fs s2. \<not> in_tree d q}"
    using cleaned unfolding cleanup_outcome_def s2_def [symmetric] d_def [symmetric]
    by (rule exit_returns_fs)
  also have "\<dots> = fs s"
    using outside fresh s1 by (auto simp: in_tree_def)
  finally show ?thesis
    by (simp add: snd_perform created s2_def d_def)
qed

lemma unavailable_perform:
  assumes "\<not> heavy_libs_successfully_imported g \<or> \<not> WHISPER_MODEL_INSTANCE g"
    and "mkdtemp_error E = None"
  shows "trace (snd (perform_full_audio_audit E g p s))
           = trace s @ [MkTempDir (tmpdir_name E), RmTempDir (tmpdir_name E)]"
    and "fresh_temp_dir (tmpdir_name E) s \<Longrightarrow> cleanup_rmdir_error E (tmpdir_name E) = None
           \<Longrightarrow> fst (perform_full_audio_audit E g p s)
                 = Inr (failed_record p (ascii
                     ''Import error during processing: Core audio processing components are not available for a full audit.''))"
proof -
  have ends: "stages_end E g p s = enter_temporary_directory E s"
    by (simp add: stages_end_def unavailable_body [OF assms(1)])
  show "trace (snd (perform_full_audio_audit E g p s))
           = trace s @ [MkTempDir (tmpdir_name E), RmTempDir (tmpdir_name E)]"
    by (simp add: snd_perform assms(2) ends exit_trace enter_temporary_directory_def)
  assume fresh: "fresh_temp_dir (tmpdir_name E) s"
    and rmdir: "cleanup_rmdir_error E (tmpdir_name E) = None"
  have "\<forall>q \<in> fs (enter_temporary_directory E s). in_tree (tmpdir_name E) q \<longrightarrow> q = tmpdir_name E"
    using fresh by (auto simp: fresh_temp_dir_def enter_temporary_directory_def)
  then have cleaned: "cleanup_outcome E g p s = Inr ()"
    unfolding cleanup_outcome_def ends by (rule exit_empty_directory) (rule rmdir)
  show "fst (perform_full_audio_audit E g p s)
          = Inr (failed_record p (ascii
              ''Import error during processing: Core audio processing components are not available for a full audit.''))"
    by (simp add: perform_returns [OF assms(2) cleaned] handled_body
          unavailable_body [OF assms(1)] audit_handler_def)
       (simp add: ascii_def)
qed

section \<open>Capabilities unavailable\<close>

text \<open>
  Claim C3, as the code has it. When the availability check reports unavailable (the heavy
  libraries did not import, or the transcription model instance is not initialised), and
  the temporary working directory of the invocation is created and removed without
  error, \<open>perform_full_audio_audit\<close> returns the \<open>FAILED\<close> record of the import-error
  category, whose message says that the core audio processing components are not
  available. The check is made inside every invocation, on the module state of that
  moment. No stage runs and nothing is looked up on the file system, but the invocation
  does touch it: it creates its temporary working directory before the check and removes
  it afterwards, and these are its only two actions; the file system ends as it began.
\<close>

theorem unavailable_audit_fails_without_running_a_stage:
  assumes "\<not> heavy_libs_successfully_imported g \<or> \<not> WHISPER_MODEL_INSTANCE g"
    and "mkdtemp_error E = None"
  shows "trace (snd (perform_full_audio_audit E g p s))
           = trace s @ [MkTempDir (tmpdir_name E), RmTempDir (tmpdir_name E)]
         \<and> (fresh_temp_dir (tmpdir_name E) s \<and> cleanup_rmdir_error E (tmpdir_name E) = None
              \<longrightarrow> fst (perform_full_audio_audit E g p s)
                    = Inr (failed_record p (ascii
                        ''Import error during processing: Core audio processing components are not available for a full audit.''))
                  \<and> fs (snd (perform_full_audio_audit E g p s)) = fs s)"
  using unavailable_perform [OF assms] perform_restores_fs by simp

theorem unavailable_audit_fails_without_running_a_stage_witness:
  "\<not> WHISPER_MODEL_INSTANCE unavailable
   \<and> mkdtemp_error demo_env = None
   \<and> fresh_temp_dir (tmpdir_name demo_env) demo_state
   \<and> cleanup_rmdir_error demo_env (tmpdir_name demo_env) = None
   \<and> fst (perform_full_audio_audit demo_env unavailable demo_path demo_state)
       = Inr (failed_record demo_path (ascii
           ''Import error during processing: Core audio processing components are not available for a full audit.''))
   \<and> trace (snd (perform_full_audio_audit demo_env unavailable demo_path demo_state))
       = trace demo_state @ [MkTempDir (tmpdir_name demo_env), RmTempDir (tmpdir_name demo_env)]
   \<and> fs (snd (perform_full_audio_audit demo_env unavailable demo_path demo_state))
       = fs demo_state"
proof -
  have rmdir: "cleanup_rmdir_error demo_env (tmpdir_name demo_env) = None"
    by (simp add: demo_env_def)
  from unavailable_audit_fails_without_running_a_stage
         [OF unavailable_guard demo_created(1), of demo_path demo_state]
       demo_fresh rmdir demo_created(1)
  show ?thesis
    by (simp add: unavailable_def)
qed

text \<open>
  The claim as stated has the invocation never touch the file system beyond checking the
  guard, and always return the record. With the model instance missing, the trace still
  shows the directory created; and in a world where \<open>mkdtemp\<close> fails, the invocation
  raises before the guard is looked at.
\<close>

theorem unavailable_audit_creates_a_directory:
  "\<not> WHISPER_MODEL_INSTANCE unavailable
   \<and> MkTempDir (tmpdir_name demo_env)
       \<in> set (trace (snd (perform_full_audio_audit demo_env unavailable demo_path demo_state)))
   \<and> MkTempDir (tmpdir_name demo_env) \<notin> set (trace demo_state)
   \<and> mkdtemp_error full_env = Some (OSError, ascii ''No space left on device'')
   \<and> fst (perform_full_audio_audit full_env unavailable demo_path demo_state)
       = Inl (Exc OSError (ascii ''No space left on device''))"
  using unavailable_perform(1) [OF unavailable_guard demo_created(1), of demo_path demo_state]
  by (simp add: unavailable_def demo_state_def fst_perform full_env_def)

section \<open>The language-model adapter\<close>

lemma fst_analyze_text:
  "ollama g \<Longrightarrow>
   fst (analyze_text E g text model s)
     = (case ollama_generate E model (build_prompt text) of
          Inl (c, m) \<Rightarrow>
            fst (analyze_handler E None (Exc c m)
                   (emit (OllamaGenerate model (build_prompt text)) (emit (CallAnalyzeText text) s)))
        | Inr response \<Rightarrow>
            fst (try_except (check_and_parse E text response) (analyze_handler E (Some response))
                   (emit (OllamaGenerate model (build_prompt text)) (emit (CallAnalyzeText text) s))))"
  by (simp add: analyze_text_def andthen_def announce_def try_except_else_def call_def
        split: sum.splits prod.splits)

lemma has_response_key:
  "map_of kvs (ascii ''response'') = Some v \<Longrightarrow> ascii ''response'' \<in> fst ` set kvs"
  by (metis map_of_eq_None_iff option.distinct(1))

lemma check_and_parse_text:
  assumes "response = PDict kvs \<or> response = PObj kvs"
    and "map_of kvs (ascii ''response'') = Some (PStr raw)"
  shows "check_and_parse E text response
           = (case json_loads E raw of Inl (c, m) \<Rightarrow> raise (Exc c m) | Inr v \<Rightarrow> ret v)"
proof -
  have "py_contains E response (ascii ''response'') = Inr True"
    using assms(1) has_response_key [OF assms(2)] by (elim disjE) simp_all
  moreover have "py_getitem E response (ascii ''response'') = Inr (PStr raw)"
    using assms by auto
  ultimately show ?thesis
    by (simp add: check_and_parse_def)
qed

lemma analyze_handler_parse_failure:
  assumes "response = PDict kvs \<or> response = PObj kvs"
    and "map_of kvs (ascii ''response'') = Some (PStr raw)"
    and "is_subclass c JSONDecodeError"
  shows "analyze_handler E (Some response) (Exc c m)
           = ret (PDict (analysis_dict SENTIMENT_UNKNOWN [ascii ''JSON parsing error: '' @ m]
                           (parse_failure_summary
                              (take 100 (case response of PDict d \<Rightarrow> raw
                                         | other \<Rightarrow> py_str E other)))))"
  using assms by (auto simp: analyze_handler_def raw_response_prefix_def)

lemma unparsable_reply:
  assumes "ollama g"
    and "ollama_generate E model (build_prompt text) = Inr response"
    and "response = PDict kvs \<or> response = PObj kvs"
    and "map_of kvs (ascii ''response'') = Some (PStr raw)"
    and "json_loads E raw = Inl (c, m)"
    and "is_subclass c JSONDecodeError"
  shows "fst (analyze_text E g text model s)
           = Inr (PDict (analysis_dict SENTIMENT_UNKNOWN [ascii ''JSON parsing error: '' @ m]
                           (parse_failure_summary
                              (take 100 (case response of PDict d \<Rightarrow> raw | other \<Rightarrow> py_str E other)))))"
  using assms(1,2,5)
  by (simp add: fst_analyze_text fst_try_except check_and_parse_text [OF assms(3,4)]
        analyze_handler_parse_failure [OF assms(3,4,6)])

lemma generate_raises_decode_error:
  assumes "ollama g"
    and "ollama_generate E model (build_prompt text) = Inl (c, m)"
    and "is_subclass c JSONDecodeError"
  shows "fst (analyze_text E g text model s)
           = Inl (Exc UnboundLocalError (fault_text E (UnboundLocal (ascii ''response''))))"
  using assms by (simp add: fst_analyze_text analyze_handler_def raise_def)

lemma parsed_reply:
  assumes "ollama g"
    and "ollama_generate E model (build_prompt text) = Inr (PDict kvs)"
    and "map_of kvs (ascii ''response'') = Some (PStr raw)"
    and "json_loads E raw = Inr v"
  shows "fst (analyze_text E g text model s) = Inr v"
  using assms(1,2,4)
  by (simp add: fst_analyze_text fst_try_except
        check_and_parse_text [where kvs = kvs, OF _ assms(3)])

subsection \<open>the concrete replies\<close>

lemma garbled_reply:
  "fst (analyze_text garbled_env ready text model s)
     = Inr (PDict (analysis_dict SENTIMENT_UNKNOWN
                     [ascii ''JSON parsing error: Expecting value: line 1 column 1 (char 0)'']
                     (parse_failure_summary (ascii ''oops''))))"
proof -
  have "fst (analyze_text garbled_env ready text model s)
          = Inr (PDict (analysis_dict SENTIMENT_UNKNOWN
                  [ascii ''JSON parsing error: '' @ ascii ''Expecting value: line 1 column 1 (char 0)'']
                  (parse_failure_summary
                     (take 100 (case PDict [(ascii ''response'', PStr (ascii ''oops''))] of
                                  PDict d \<Rightarrow> ascii ''oops'' | other \<Rightarrow> py_str garbled_env other)))))"
    by (rule unparsable_reply
              [where c = JSONDecodeError and kvs = "[(ascii ''response'', PStr (ascii ''oops''))]"])
       (simp_all add: garbled_env_def demo_env_def ascii_def)
  then show ?thesis
    by (simp add: ascii_def)
qed

lemma demo_reply: "fst (analyze_text demo_env ready text model s) = Inr (PInt 42)"
  by (rule parsed_reply
            [where raw = "ascii ''42''" and kvs = "[(ascii ''response'', PStr (ascii ''42''))]"])
     (simp_all add: demo_env_def)

lemma conflicting_reply_parsed:
  "fst (analyze_text conflicting_env ready text model s) = Inr (PDict conflicting_reply)"
  by (rule parsed_reply
            [where raw = "ascii ''42''" and kvs = "[(ascii ''response'', PStr (ascii ''42''))]"])
     (simp_all add: conflicting_env_def demo_env_def)

lemma html_reply:
  "fst (analyze_text html_env ready text model s)
     = Inl (Exc UnboundLocalError (fault_text html_env (UnboundLocal (ascii ''response''))))"
  by (rule generate_raises_decode_error [where c = JSONDecodeError])
     (simp_all add: html_env_def demo_env_def)

section \<open>A decoding error raised by the service call\<close>

text \<open>
  Claim C5 holds that \<open>analyze_text\<close> turns every failure of \<open>ollama.generate\<close> into a
  fallback result. The code misses one case. When \<open>ollama.generate\<close> itself raises
  \<open>json.JSONDecodeError\<close> (the client library could not decode what the service sent),
  the clause of line 180 is the one that matches, and it reads the local \<open>response\<close>,
  which was never bound: \<open>analyze_text\<close> raises \<open>UnboundLocalError\<close> instead of returning.
\<close>

theorem decode_error_from_the_service_escapes:
  assumes "ollama g"
    and "ollama_generate E model (build_prompt text) = Inl (c, m)"
    and "is_subclass c JSONDecodeError"
  shows "fst (analyze_text E g text model s)
           = Inl (Exc UnboundLocalError (fault_text E (UnboundLocal (ascii ''response''))))"
  by (rule generate_raises_decode_error [OF assms])

theorem decode_error_from_the_service_escapes_witness:
  "ollama ready
   \<and> ollama_generate html_env OLLAMA_MODEL_NAME (build_prompt (ascii ''hello''))
       = Inl (JSONDecodeError, ascii ''Expecting value: line 1 column 1 (char 0)'')
   \<and> is_subclass JSONDecodeError JSONDecodeError
   \<and> fst (analyze_text html_env ready (ascii ''hello'') OLLAMA_MODEL_NAME demo_state)
       = Inl (Exc UnboundLocalError (fault_text html_env (UnboundLocal (ascii ''response''))))"
proof -
  have gen: "ollama_generate html_env OLLAMA_MODEL_NAME (build_prompt (ascii ''hello''))
               = Inl (JSONDecodeError, ascii ''Expecting value: line 1 column 1 (char 0)'')"
    by (simp add: html_env_def demo_env_def)
  have sub: "is_subclass JSONDecodeError JSONDecodeError"
    by simp
  from decode_error_from_the_service_escapes [OF ready_simps(8) gen sub, of demo_state] gen
  show ?thesis
    by simp
qed

section \<open>A reply that is not valid JSON\<close>

text \<open>
  Claim C6, as the code has it. When the service returns a response (a dict, or an object
  read by key) whose \<open>response\<close> text is rejected by the JSON parser, \<open>analyze_text\<close>
  returns the unknown sentiment marker, a compliance-issue list with one non-empty entry
  (the parse error), and a summary that quotes at most 100 characters: the first 100
  characters of the raw text when the response is a dict, which is the whole raw text
  when that has at most 100 characters, and the first 100 characters of \<open>str(response)\<close>
  otherwise.
\<close>

theorem unparsable_reply_is_quoted_up_to_100_characters:
  assumes "ollama g"
    and "ollama_generate E model (build_prompt text) = Inr response"
    and "response = PDict kvs \<or> response = PObj kvs"
    and "map_of kvs (ascii ''response'') = Some (PStr raw)"
    and "json_loads E raw = Inl (c, m)"
    and "is_subclass c JSONDecodeError"
  shows "\<exists>issue shown.
           fst (analyze_text E g text model s)
             = Inr (PDict (analysis_dict SENTIMENT_UNKNOWN [issue] (parse_failure_summary shown)))
           \<and> issue \<noteq> []
           \<and> shown = take 100 (case response of PDict d \<Rightarrow> raw | other \<Rightarrow> py_str E other)
           \<and> length shown \<le> 100
           \<and> (response = PDict kvs \<longrightarrow> prefix shown raw \<and> (length raw \<le> 100 \<longrightarrow> shown = raw))"
  using unparsable_reply [OF assms, of s]
  by (auto simp: ascii_def take_is_prefix)

lemma garbled_world:
  "ollama_generate garbled_env model prompt
     = Inr (PDict [(ascii ''response'', PStr (ascii ''oops''))])"
  "json_loads garbled_env (ascii ''oops'')
     = Inl (JSONDecodeError, ascii ''Expecting value: line 1 column 1 (char 0)'')"
  "map_of [(ascii ''response'', PStr (ascii ''oops''))] (ascii ''response'')
     = Some (PStr (ascii ''oops''))"
  by (simp_all add: garbled_env_def demo_env_def ascii_def)

theorem unparsable_reply_is_quoted_up_to_100_characters_witness:
  "ollama ready
   \<and> ollama_generate garbled_env OLLAMA_MODEL_NAME (build_prompt (ascii ''hello''))
       = Inr (PDict [(ascii ''response'', PStr (ascii ''oops''))])
   \<and> map_of [(ascii ''response'', PStr (ascii ''oops''))] (ascii ''response'')
       = Some (PStr (ascii ''oops''))
   \<and> json_loads garbled_env (ascii ''oops'')
       = Inl (JSONDecodeError, ascii ''Expecting value: line 1 column 1 (char 0)'')
   \<and> is_subclass JSONDecodeError JSONDecodeError
   \<and> (\<exists>issue shown.
         fst (analyze_text garbled_env ready (ascii ''hello'') OLLAMA_MODEL_NAME demo_state)
           = Inr (PDict (analysis_dict SENTIMENT_UNKNOWN [issue] (parse_failure_summary shown)))
         \<and> issue \<noteq> [] \<and> shown = ascii ''oops'' \<and> length shown \<le> 100)"
proof -
  have shape: "PDict [(ascii ''response'', PStr (ascii ''oops''))]
                 = PDict [(ascii ''response'', PStr (ascii ''oops''))]
               \<or> PDict [(ascii ''response'', PStr (ascii ''oops''))]
                 = PObj [(ascii ''response'', PStr (ascii ''oops''))]"
    by simp
  have sub: "is_subclass JSONDecodeError JSONDecodeError"
    by simp
  have short: "length (ascii ''oops'') \<le> 100"
    by (simp add: ascii_def)
  from unparsable_reply_is_quoted_up_to_100_characters
         [where s = demo_state, OF ready_simps(8) garbled_world(1) shape garbled_world(3)
            garbled_world(2) sub]
       garbled_world short
  show ?thesis
    by auto
qed

lemma str_contains_middle: "str_contains (xs @ t @ ys) t"
proof (induction xs)
  case Nil
  then show ?case
    by (cases t; cases ys) simp_all
next
  case (Cons x xs)
  then show ?case
    by simp
qed

text \<open>
  The claim as stated has the summary never contain the full raw response; the reply
  \<open>oops\<close> is quoted in full.
\<close>

theorem short_reply_is_quoted_in_full:
  "ollama_generate garbled_env OLLAMA_MODEL_NAME (build_prompt (ascii ''hello''))
     = Inr (PDict [(ascii ''response'', PStr (ascii ''oops''))])
   \<and> json_loads garbled_env (ascii ''oops'')
       = Inl (JSONDecodeError, ascii ''Expecting value: line 1 column 1 (char 0)'')
   \<and> field (fst (analyze_text garbled_env ready (ascii ''hello'') OLLAMA_MODEL_NAME demo_state))
        (ascii ''summary'')
       = Some (PStr (parse_failure_summary (ascii ''oops'')))
   \<and> str_contains (parse_failure_summary (ascii ''oops'')) (ascii ''oops'')"
proof -
  have "str_contains (parse_failure_summary (ascii ''oops'')) (ascii ''oops'')"
    unfolding parse_failure_summary_def
    using str_contains_middle
            [of "[26080, 27861, 35299, 26512] @ ascii ''LLM'' @ [36755, 20986, 12290]
                   @ ascii ''Raw: ''" "ascii ''oops''" "ascii ''...''"]
    by simp
  then show ?thesis
    by (simp add: garbled_reply garbled_world analysis_dict_def) (simp add: ascii_def)
qed

lemma getitem_shape:
  "py_getitem E v k = Inr x \<Longrightarrow> \<exists>kvs. (v = PDict kvs \<or> v = PObj kvs) \<and> map_of kvs k = Some x"
  by (cases v) (auto split: option.splits)

text \<open>
  Claim C7, as the code has it. On a parse failure of the text that the response of the
  service delivers under \<open>response\<close>, \<open>analyze_text\<close> returns exactly three entries: the
  sentiment \<open>unknown\<close> marker; a compliance-issue list that is not empty but holds one
  entry, \<open>JSON parsing error:\<close> followed by the parser's message; and the summary that
  states the failure and embeds at most 100 characters, which are the first 100
  characters of the raw text when the response is a dict, and the first 100 characters of
  \<open>str(response)\<close> when the response is another object that is read by key.
\<close>

theorem parse_failure_is_listed_as_an_issue:
  assumes "ollama g"
    and "ollama_generate E model (build_prompt text) = Inr response"
    and "py_getitem E response (ascii ''response'') = Inr (PStr raw)"
    and "json_loads E raw = Inl (c, m)"
    and "is_subclass c JSONDecodeError"
  shows "fst (analyze_text E g text model s)
           = Inr (PDict [(ascii ''sentiment'', PStr SENTIMENT_UNKNOWN),
                         (ascii ''compliance_issues'',
                          PList [PStr (ascii ''JSON parsing error: '' @ m)]),
                         (ascii ''summary'',
                          PStr (parse_failure_summary
                                  (take 100 (case response of PDict d \<Rightarrow> raw
                                             | other \<Rightarrow> py_str E other))))])
         \<and> length (take 100 (case response of PDict d \<Rightarrow> raw | other \<Rightarrow> py_str E other))
             \<le> 100"
proof -
  from getitem_shape [OF assms(3)] obtain kvs where
    shape: "response = PDict kvs \<or> response = PObj kvs"
    and entry: "map_of kvs (ascii ''response'') = Some (PStr raw)"
    by blast
  from unparsable_reply [where s = s, OF assms(1,2) shape entry assms(4,5)] show ?thesis
    by (simp add: analysis_dict_def)
qed

lemma object_world:
  "ollama_generate object_env model prompt
     = Inr (PObj [(ascii ''response'', PStr (ascii ''oops''))])"
  "json_loads object_env (ascii ''oops'')
     = Inl (JSONDecodeError, ascii ''Expecting value: line 1 column 1 (char 0)'')"
  "py_str object_env v = ascii ''<object>''"
  by (simp_all add: object_env_def demo_env_def ascii_def)

lemma oops_entry:
  "py_getitem E (PDict [(ascii ''response'', PStr (ascii ''oops''))]) (ascii ''response'')
     = Inr (PStr (ascii ''oops''))"
  "py_getitem E (PObj [(ascii ''response'', PStr (ascii ''oops''))]) (ascii ''response'')
     = Inr (PStr (ascii ''oops''))"
  by (simp_all add: ascii_def)

theorem parse_failure_is_listed_as_an_issue_witness:
  "ollama ready
   \<and> is_subclass JSONDecodeError JSONDecodeError
   \<and> ollama_generate garbled_env OLLAMA_MODEL_NAME (build_prompt (ascii ''hello''))
       = Inr (PDict [(ascii ''response'', PStr (ascii ''oops''))])
   \<and> py_getitem garbled_env (PDict [(ascii ''response'', PStr (ascii ''oops''))])
        (ascii ''response'')
       = Inr (PStr (ascii ''oops''))
   \<and> json_loads garbled_env (ascii ''oops'')
       = Inl (JSONDecodeError, ascii ''Expecting value: line 1 column 1 (char 0)'')
   \<and> fst (analyze_text garbled_env ready (ascii ''hello'') OLLAMA_MODEL_NAME demo_state)
       = Inr (PDict [(ascii ''sentiment'', PStr SENTIMENT_UNKNOWN),
                     (ascii ''compliance_issues'',
                      PList [PStr (ascii ''JSON parsing error: ''
                                     @ ascii ''Expecting value: line 1 column 1 (char 0)'')]),
                     (ascii ''summary'', PStr (parse_failure_summary (ascii ''oops'')))])
   \<and> ollama_generate object_env OLLAMA_MODEL_NAME (build_prompt (ascii ''hello''))
       = Inr (PObj [(ascii ''response'', PStr (ascii ''oops''))])
   \<and> py_getitem object_env (PObj [(ascii ''response'', PStr (ascii ''oops''))])
        (ascii ''response'')
       = Inr (PStr (ascii ''oops''))
   \<and> json_loads object_env (ascii ''oops'')
       = Inl (JSONDecodeError, ascii ''Expecting value: line 1 column 1 (char 0)'')
   \<and> fst (analyze_text object_env ready (ascii ''hello'') OLLAMA_MODEL_NAME demo_state)
       = Inr (PDict [(ascii ''sentiment'', PStr SENTIMENT_UNKNOWN),
                     (ascii ''compliance_issues'',
                      PList [PStr (ascii ''JSON parsing error: ''
                                     @ ascii ''Expecting value: line 1 column 1 (char 0)'')]),
                     (ascii ''summary'', PStr (parse_failure_summary (ascii ''<object>'')))])"
proof -
  have sub: "is_subclass JSONDecodeError JSONDecodeError"
    by simp
  have whole: "take 100 (ascii ''oops'') = ascii ''oops''"
    "take 100 (ascii ''<object>'') = ascii ''<object>''"
    by (simp_all add: ascii_def)
  from parse_failure_is_listed_as_an_issue
         [where s = demo_state, OF ready_simps(8) garbled_world(1) oops_entry(1)
            garbled_world(2) sub]
       parse_failure_is_listed_as_an_issue
         [where s = demo_state, OF ready_simps(8) object_world(1) oops_entry(2)
            object_world(2) sub]
       garbled_world(1,2) object_world oops_entry sub whole
  show ?thesis
    by simp
qed

text \<open>
  The claim as stated has the compliance-issue list empty; for the reply \<open>oops\<close> it holds
  the parse error.
\<close>

theorem parse_failure_issue_list_is_not_empty:
  "json_loads garbled_env (ascii ''oops'')
     = Inl (JSONDecodeError, ascii ''Expecting value: line 1 column 1 (char 0)'')
   \<and> field (fst (analyze_text garbled_env ready (ascii ''hello'') OLLAMA_MODEL_NAME demo_state))
        (ascii ''compliance_issues'')
       = Some (PList [PStr (ascii ''JSON parsing error: Expecting value: line 1 column 1 (char 0)'')])
   \<and> field (fst (analyze_text garbled_env ready (ascii ''hello'') OLLAMA_MODEL_NAME demo_state))
        (ascii ''compliance_issues'')
       \<noteq> Some (PList [])"
  by (simp add: garbled_reply garbled_world analysis_dict_def) (simp add: ascii_def)

section \<open>What the adapter returns\<close>

lemma check_and_parse_returns:
  assumes "fst (check_and_parse E text response s) = Inr v"
  shows "(\<exists>issue summary. v = PDict (analysis_dict SENTIMENT_UNKNOWN [issue] summary))
         \<or> (\<exists>raw. py_getitem E response (ascii ''response'') = Inr (PStr raw)
                  \<and> json_loads E raw = Inr v)"
  using assms unfolding check_and_parse_def Let_def
  by (auto split: sum.splits bool.splits pyval.splits prod.splits)

lemma analyze_handler_returns:
  assumes "fst (analyze_handler E r e s) = Inr v"
  shows "\<exists>issue summary. v = PDict (analysis_dict SENTIMENT_UNKNOWN [issue] summary)"
  using assms unfolding analyze_handler_def
  by (auto split: sum.splits option.splits if_splits)

text \<open>
  Claim C8, as the code has it. A value returned by \<open>analyze_text\<close> is either one of its
  fallback dicts, with exactly the keys \<open>sentiment\<close> (the unknown marker),
  \<open>compliance_issues\<close> (one entry) and \<open>summary\<close>, or it is the value that the JSON
  parser produced from the \<open>response\<close> text of the service, handed on as it is: the
  parsed value is not checked to be a mapping or to have these keys.
\<close>

theorem analyze_text_returns_fallback_or_parsed_reply:
  assumes "fst (analyze_text E g text model s) = Inr v"
  shows "(\<exists>issue summary. v = PDict (analysis_dict SENTIMENT_UNKNOWN [issue] summary))
         \<or> (\<exists>response raw.
               ollama_generate E model (build_prompt text) = Inr response
               \<and> py_getitem E response (ascii ''response'') = Inr (PStr raw)
               \<and> json_loads E raw = Inr v)"
proof (cases "ollama g")
  case False
  with assms show ?thesis
    by (simp add: analyze_text_def fst_andthen)
next
  case True
  show ?thesis
  proof (cases "ollama_generate E model (build_prompt text)")
    case (Inl failure)
    with True assms show ?thesis
      by (cases failure) (auto simp: fst_analyze_text dest: analyze_handler_returns)
  next
    case (Inr response)
    define s' where
      "s' = emit (OllamaGenerate model (build_prompt text)) (emit (CallAnalyzeText text) s)"
    show ?thesis
    proof (cases "fst (check_and_parse E text response s')")
      case (Inl e)
      with True Inr assms have "fst (analyze_handler E (Some response) e
                                       (snd (check_and_parse E text response s'))) = Inr v"
        by (simp add: fst_analyze_text fst_try_except s'_def)
      then show ?thesis
        by (auto dest: analyze_handler_returns)
    next
      case parsed: (Inr v')
      from parsed True Inr assms have "v' = v"
        by (simp add: fst_analyze_text fst_try_except s'_def)
      with parsed have "fst (check_and_parse E text response s') = Inr v"
        by simp
      from check_and_parse_returns [OF this] Inr show ?thesis
        by auto
    qed
  qed
qed

theorem analyze_text_returns_fallback_or_parsed_reply_witness:
  "fst (analyze_text demo_env ready (ascii ''hello'') OLLAMA_MODEL_NAME demo_state)
     = Inr (PInt 42)
   \<and> ((\<exists>issue summary. PInt 42 = PDict (analysis_dict SENTIMENT_UNKNOWN [issue] summary))
        \<or> (\<exists>response raw.
              ollama_generate demo_env OLLAMA_MODEL_NAME (build_prompt (ascii ''hello''))
                = Inr response
              \<and> py_getitem demo_env response (ascii ''response'') = Inr (PStr raw)
              \<and> json_loads demo_env raw = Inr (PInt 42)))"
  using analyze_text_returns_fallback_or_parsed_reply [OF demo_reply] demo_reply
  by simp

text \<open>
  The claim as stated has every returned value a mapping with the recognised keys; the
  reply \<open>42\<close> is valid JSON, and the adapter returns the number 42.
\<close>

theorem analyze_text_returns_a_number:
  "ollama_generate demo_env OLLAMA_MODEL_NAME (build_prompt (ascii ''hello''))
     = Inr (PDict [(ascii ''response'', PStr (ascii ''42''))])
   \<and> json_loads demo_env (ascii ''42'') = Inr (PInt 42)
   \<and> fst (analyze_text demo_env ready (ascii ''hello'') OLLAMA_MODEL_NAME demo_state)
       = Inr (PInt 42)
   \<and> field (fst (analyze_text demo_env ready (ascii ''hello'') OLLAMA_MODEL_NAME demo_state))
        (ascii ''sentiment'') = None"
  by (simp add: demo_reply) (simp add: demo_env_def)

section \<open>The record names its file\<close>

lemma setitem_names_file:
  "py_setitem E v (ascii ''audio_file'') x = Inr a
     \<Longrightarrow> map_of (AList.update (ascii ''transcription'') y a) (ascii ''audio_file'') = Some x"
  by (cases v) (auto simp: update_conv' ascii_def)

lemma audit_body_names_file:
  "returns_only (\<lambda>r. map_of r (ascii ''audio_file'') = Some (PStr (basename p)))
     (audit_body E g p d)"
  unfolding audit_body_def
  by (auto intro!: returns_only_raise returns_only_andthen returns_only_ret
        simp: setitem_names_file split: sum.splits)

lemma perform_names_file:
  assumes "fst (perform_full_audio_audit E g p s) = Inr record"
  shows "map_of record (ascii ''audio_file'') = Some (PStr (basename p))"
proof (cases "fst (audit_body E g p (tmpdir_name E) (enter_temporary_directory E s))")
  case (Inl e)
  from perform_reports_failure [OF perform_returned(1,2) [OF assms] Inl] assms show ?thesis
    by (auto simp: failed_record_fields)
next
  case (Inr r)
  then have "map_of r (ascii ''audio_file'') = Some (PStr (basename p))"
    using audit_body_names_file [of p E g "tmpdir_name E"]
    unfolding returns_only_def by (metis prod.collapse)
  with Inr perform_returned(3) [OF assms] show ?thesis
    by (simp add: handled_body)
qed

text \<open>
  Claim C10. Whatever the stages do, a dict returned by \<open>perform_full_audio_audit\<close> has
  under \<open>audio_file\<close> the base name of the input path: on the success path the entry is
  written after the analysis result is received, so it replaces an \<open>audio_file\<close> entry
  that the language model may have supplied, and every failure record starts with
  it. When the stages ended with an exception, the dict also pairs a non-empty \<open>error\<close>
  string with the \<open>status\<close> \<open>FAILED\<close>.
\<close>

theorem audit_record_names_its_file:
  assumes "fst (perform_full_audio_audit E g p s) = Inr record"
  shows "map_of record (ascii ''audio_file'') = Some (PStr (basename p))
         \<and> ((\<exists>e. fst (audit_body E g p (tmpdir_name E) (enter_temporary_directory E s)) = Inl e)
              \<longrightarrow> (\<exists>message. message \<noteq> []
                      \<and> map_of record (ascii ''error'') = Some (PStr message)
                      \<and> map_of record (ascii ''status'') = Some (PStr (ascii ''FAILED''))))"
proof (intro conjI impI)
  show "map_of record (ascii ''audio_file'') = Some (PStr (basename p))"
    by (rule perform_names_file [OF assms])
next
  assume "\<exists>e. fst (audit_body E g p (tmpdir_name E) (enter_temporary_directory E s)) = Inl e"
  then obtain e where
    "fst (audit_body E g p (tmpdir_name E) (enter_temporary_directory E s)) = Inl e" ..
  from perform_reports_failure [OF perform_returned(1,2) [OF assms] this] assms
  obtain detail where
    "record = failed_record p (category_text (category_of e) @ detail)"
    by auto
  then show "\<exists>message. message \<noteq> []
               \<and> map_of record (ascii ''error'') = Some (PStr message)
               \<and> map_of record (ascii ''status'') = Some (PStr (ascii ''FAILED''))"
    by (auto simp: failed_record_fields category_text_nonempty)
qed

section \<open>A reply that names another file\<close>

text \<open>
  The success path of the orchestrator, run on a world whose language model supplies its
  own \<open>audio_file\<close> entry.
\<close>

lemma perform_success:
  assumes "heavy_libs_successfully_imported g" and "WHISPER_MODEL_INSTANCE g"
    and "mkdtemp_error E = None" and "cleanup_outcome E g p s = Inr ()"
    and "fst (transcribe_audio E g p (tmpdir_name E) (enter_temporary_directory E s)) = Inr t"
    and "py_strip t \<noteq> []"
    and "\<And>s'. fst (analyze_text E g t OLLAMA_MODEL_NAME s') = Inr (PDict kvs)"
  shows "fst (perform_full_audio_audit E g p s)
           = Inr (AList.update (ascii ''transcription'') (PStr t)
                    (AList.update (ascii ''audio_file'') (PStr (basename p)) kvs))"
proof -
  have "fst (audit_body E g p (tmpdir_name E) (enter_temporary_directory E s))
          = Inr (AList.update (ascii ''transcription'') (PStr t)
                   (AList.update (ascii ''audio_file'') (PStr (basename p)) kvs))"
    using assms(1,2,5,6,7) by (simp add: audit_body_def fst_andthen)
  then show ?thesis
    by (simp add: perform_returns [OF assms(3,4)] handled_body)
qed

lemma hello_not_blank: "py_strip (ascii ''hello'') \<noteq> []"
  by (simp add: py_strip_blank ascii_def py_isspace_def)

lemma conflicting_perform:
  "fst (perform_full_audio_audit conflicting_env ready demo_path demo_state)
     = Inr (AList.update (ascii ''transcription'') (PStr (ascii ''hello''))
              (AList.update (ascii ''audio_file'') (PStr (basename demo_path))
                 conflicting_reply))"
  by (rule perform_success
            [OF ready_simps(1) ready_simps(7) demo_created(3) demo_cleanup(3)
                demo_transcribe(4) [OF demo_state_has_recording]
                hello_not_blank conflicting_reply_parsed])

lemma demo_unavailable_perform:
  "fst (perform_full_audio_audit demo_env unavailable demo_path demo_state)
     = Inr (failed_record demo_path (ascii
         ''Import error during processing: Core audio processing components are not available for a full audit.''))"
  by (rule unavailable_perform(2) [OF unavailable_guard demo_created(1) demo_fresh])
     (simp add: demo_env_def)

theorem audit_record_names_its_file_witness:
  "fst (perform_full_audio_audit conflicting_env ready demo_path demo_state)
     = Inr (AList.update (ascii ''transcription'') (PStr (ascii ''hello''))
              (AList.update (ascii ''audio_file'') (PStr (basename demo_path))
                 conflicting_reply))
   \<and> map_of conflicting_reply (ascii ''audio_file'') = Some (PStr (ascii ''other.wav''))
   \<and> map_of (AList.update (ascii ''transcription'') (PStr (ascii ''hello''))
               (AList.update (ascii ''audio_file'') (PStr (basename demo_path))
                  conflicting_reply))
        (ascii ''audio_file'')
       = Some (PStr (basename demo_path))
   \<and> fst (audit_body demo_env unavailable demo_path (tmpdir_name demo_env)
            (enter_temporary_directory demo_env demo_state))
       = Inl (Exc ImportError (ascii
           ''Core audio processing components are not available for a full audit.''))
   \<and> (\<exists>record message.
         fst (perform_full_audio_audit demo_env unavailable demo_path demo_state) = Inr record
         \<and> message \<noteq> []
         \<and> map_of record (ascii ''error'') = Some (PStr message)
         \<and> map_of record (ascii ''status'') = Some (PStr (ascii ''FAILED'')))"
proof -
  have other: "map_of conflicting_reply (ascii ''audio_file'') = Some (PStr (ascii ''other.wav''))"
    by (simp add: conflicting_reply_def ascii_def)
  have raised:
    "fst (audit_body demo_env unavailable demo_path (tmpdir_name demo_env)
            (enter_temporary_directory demo_env demo_state))
       = Inl (Exc ImportError (ascii
           ''Core audio processing components are not available for a full audit.''))"
    by (simp add: unavailable_body [OF unavailable_guard])
  have named:
    "map_of (AList.update (ascii ''transcription'') (PStr (ascii ''hello''))
               (AList.update (ascii ''audio_file'') (PStr (basename demo_path))
                  conflicting_reply))
        (ascii ''audio_file'')
       = Some (PStr (basename demo_path))"
    using audit_record_names_its_file [OF conflicting_perform] by (rule conjunct1)
  have "\<exists>e. fst (audit_body demo_env unavailable demo_path (tmpdir_name demo_env)
                  (enter_temporary_directory demo_env demo_state)) = Inl e"
    using raised by (rule exI)
  with audit_record_names_its_file [OF demo_unavailable_perform] have reported:
    "\<exists>message. message \<noteq> []
       \<and> map_of (failed_record demo_path (ascii
             ''Import error during processing: Core audio processing components are not available for a full audit.''))
            (ascii ''error'') = Some (PStr message)
       \<and> map_of (failed_record demo_path (ascii
             ''Import error during processing: Core audio processing components are not available for a full audit.''))
            (ascii ''status'') = Some (PStr (ascii ''FAILED''))"
    by blast
  from conflicting_perform other named raised demo_unavailable_perform reported show ?thesis
    by blast
qed

section \<open>No temporary artifact remains\<close>

lemma transcribe_audio_removes_returned:
  assumes "enhanced_path_of E p d \<notin> fs s"
    and "os_remove_error E (enhanced_path_of E p d) = None"
    and "fst (preprocess_audio E g p d s) = Inr x"
  shows "enhanced_path_of E p d \<notin> fs (snd (transcribe_audio E g p d s))"
proof (cases "\<not> heavy_libs_successfully_imported g \<or> \<not> WhisperModel g
               \<or> \<not> WHISPER_MODEL_INSTANCE g")
  case True
  then show ?thesis
    using assms(1) by (auto simp: transcribe_audio_def raise_def)
next
  case False
  obtain s1 where run: "preprocess_audio E g p d s = (Inr x, s1)"
    using assms(3) by (cases "preprocess_audio E g p d s") auto
  have x: "x = enhanced_path_of E p d"
    using preprocess_audio_returns [of E p d g] run by (auto simp: returns_only_def)
  show ?thesis
    using False run x assms(2)
    by (simp add: transcribe_audio_def try_except_else_def snd_try_finally
          remove_if_exists_removes)
qed

lemma conflicting_preprocess:
  assumes "demo_path \<in> fs s"
  shows "fst (preprocess_audio conflicting_env ready demo_path d s)
           = Inr (enhanced_path_of conflicting_env demo_path d)"
  using assms
  by (simp add: preprocess_audio_def enhance_and_save_def Let_def fst_rules conflicting_env_def
        demo_env_def split: option.splits)

lemma conflicting_paths:
  "enhanced_path_of conflicting_env demo_path (ascii ''/work'')
     = ascii ''/work/call_enhanced_0a1b2c3d.wav''"
  "conversion_path_of conflicting_env demo_path (ascii ''/work'')
     = ascii ''/work/call_temp_conversion_4e5f6a7b.wav''"
  using demo_enhanced_path demo_conversion_path
  by (simp_all add: enhanced_path_of_def conversion_path_of_def conflicting_env_def)

text \<open>
  Claim C1, as the code has it. Whenever \<open>perform_full_audio_audit\<close> returns a result,
  whichever way its stages ended, its temporary working directory has been removed with
  all it contained, and the file system is what it was before the invocation: no
  temporary file or directory created during the invocation remains. The two stages
  remove their own files as far as \<open>os.remove\<close> succeeds, since an \<open>OSError\<close> of the
  removal is printed and ignored: after \<open>preprocess_audio\<close>, on its success and on its
  failure paths, the format-conversion file is gone when its removal does not fail; and
  after \<open>transcribe_audio\<close> the enhanced file that \<open>preprocess_audio\<close> returned is gone when
  its removal does not fail, whether the transcription succeeded or failed.
\<close>

theorem temporary_artifacts_are_removed:
  "(fresh_temp_dir (tmpdir_name E) s \<and> fst (perform_full_audio_audit E g p s) = Inr record
      \<longrightarrow> fs (snd (perform_full_audio_audit E g p s)) = fs s)
   \<and> (conversion_path_of E p d \<notin> fs s \<and> os_remove_error E (conversion_path_of E p d) = None
        \<longrightarrow> conversion_path_of E p d \<notin> fs (snd (preprocess_audio E g p d s)))
   \<and> (enhanced_path_of E p d \<notin> fs s \<and> os_remove_error E (enhanced_path_of E p d) = None
        \<and> fst (preprocess_audio E g p d s) = Inr x
        \<longrightarrow> enhanced_path_of E p d \<notin> fs (snd (transcribe_audio E g p d s)))"
proof (intro conjI impI)
  assume "fresh_temp_dir (tmpdir_name E) s \<and> fst (perform_full_audio_audit E g p s) = Inr record"
  then show "fs (snd (perform_full_audio_audit E g p s)) = fs s"
    using perform_restores_fs by blast
next
  assume "conversion_path_of E p d \<notin> fs s \<and> os_remove_error E (conversion_path_of E p d) = None"
  then show "conversion_path_of E p d \<notin> fs (snd (preprocess_audio E g p d s))"
    using not_created_preprocess_audio [of E p d g]
    by (auto simp: steps_def not_created_unless_def)
next
  assume "enhanced_path_of E p d \<notin> fs s \<and> os_remove_error E (enhanced_path_of E p d) = None
            \<and> fst (preprocess_audio E g p d s) = Inr x"
  then show "enhanced_path_of E p d \<notin> fs (snd (transcribe_audio E g p d s))"
    using transcribe_audio_removes_returned by blast
qed

theorem temporary_artifacts_are_removed_witness:
  "fresh_temp_dir (tmpdir_name conflicting_env) demo_state
   \<and> fst (perform_full_audio_audit conflicting_env ready demo_path demo_state)
       = Inr (AList.update (ascii ''transcription'') (PStr (ascii ''hello''))
                (AList.update (ascii ''audio_file'') (PStr (basename demo_path))
                   conflicting_reply))
   \<and> fs (snd (perform_full_audio_audit conflicting_env ready demo_path demo_state))
       = fs demo_state
   \<and> ascii ''/work/call_temp_conversion_4e5f6a7b.wav'' \<notin> fs demo_state
   \<and> os_remove_error conflicting_env (ascii ''/work/call_temp_conversion_4e5f6a7b.wav'') = None
   \<and> ascii ''/work/call_temp_conversion_4e5f6a7b.wav''
       \<notin> fs (snd (preprocess_audio conflicting_env ready demo_path (ascii ''/work'') demo_state))
   \<and> ascii ''/work/call_enhanced_0a1b2c3d.wav'' \<notin> fs demo_state
   \<and> os_remove_error conflicting_env (ascii ''/work/call_enhanced_0a1b2c3d.wav'') = None
   \<and> fst (preprocess_audio conflicting_env ready demo_path (ascii ''/work'') demo_state)
       = Inr (ascii ''/work/call_enhanced_0a1b2c3d.wav'')
   \<and> ascii ''/work/call_enhanced_0a1b2c3d.wav''
       \<notin> fs (snd (transcribe_audio conflicting_env ready demo_path (ascii ''/work'') demo_state))"
proof -
  have fresh: "fresh_temp_dir (tmpdir_name conflicting_env) demo_state"
    using demo_fresh by (simp add: conflicting_env_def)
  have conv: "ascii ''/work/call_temp_conversion_4e5f6a7b.wav'' \<notin> fs demo_state"
    by (simp add: demo_state_def) (simp add: ascii_def)
  have enh: "ascii ''/work/call_enhanced_0a1b2c3d.wav'' \<notin> fs demo_state"
    by (simp add: demo_state_def) (simp add: ascii_def)
  have rm: "os_remove_error conflicting_env q = None" for q
    by (simp add: conflicting_env_def demo_env_def)
  have pre: "fst (preprocess_audio conflicting_env ready demo_path (ascii ''/work'') demo_state)
               = Inr (ascii ''/work/call_enhanced_0a1b2c3d.wav'')"
    using conflicting_preprocess [OF demo_state_recording, of "ascii ''/work''"]
    by (simp add: conflicting_paths)
  from temporary_artifacts_are_removed
         [of conflicting_env demo_state ready demo_path _ "ascii ''/work''"
             "ascii ''/work/call_enhanced_0a1b2c3d.wav''"]
       fresh conflicting_perform conv enh rm pre
  show ?thesis
    by (simp add: conflicting_paths)
qed

text \<open>
  The claim as stated has \<open>transcribe_audio\<close> always remove the enhanced file; when the
  removal fails, the transcript is returned and the file is still there.
\<close>

theorem enhanced_file_survives_a_failed_removal:
  "os_remove_error busy_env (ascii ''/work/call_enhanced_0a1b2c3d.wav'')
     = Some (ascii ''Permission denied'')
   \<and> fst (transcribe_audio busy_env ready demo_path (ascii ''/work'') demo_state)
       = Inr (ascii ''hello'')
   \<and> ascii ''/work/call_enhanced_0a1b2c3d.wav'' \<notin> fs demo_state
   \<and> ascii ''/work/call_enhanced_0a1b2c3d.wav''
       \<in> fs (snd (transcribe_audio busy_env ready demo_path (ascii ''/work'') demo_state))"
proof -
  have rm: "os_remove_error busy_env q = Some (ascii ''Permission denied'')" for q
    by (simp add: busy_env_def)
  have "enhanced_path_of busy_env demo_path (ascii ''/work'')
          \<in> fs (snd (transcribe_audio busy_env ready demo_path (ascii ''/work'') demo_state))"
    by (rule transcribe_audio_keeps_enhanced
               [OF ready_simps(1) ready_simps(4) ready_simps(7)
                   demo_preprocess [OF demo_state_recording] rm])
  moreover have "ascii ''/work/call_enhanced_0a1b2c3d.wav'' \<notin> fs demo_state"
    by (simp add: demo_state_def) (simp add: ascii_def)
  ultimately show ?thesis
    using rm demo_transcribe(2) [OF demo_state_recording]
    by (simp add: busy_enhanced_path)
qed

section \<open>An archive without audio\<close>

lemma audit_files_unsupported:
  "\<forall>item_name \<in> set files_in_dir. \<not> is_supported_audio item_name
     \<Longrightarrow> audit_files E g W root files_in_dir results s = (results, s)"
  by (induction files_in_dir) simp_all

lemma walk_unsupported:
  "\<forall>(root, files_in_dir) \<in> set listing. \<forall>item_name \<in> set files_in_dir.
       \<not> is_supported_audio item_name
     \<Longrightarrow> walk_and_audit E g W listing results s = (results, s)"
  by (induction listing) (auto simp: audit_files_unsupported)

lemma audit_calls_emit [simp]:
  "audit_calls (emit ev s) = (if is_audit_call ev then audit_calls s @ [ev] else audit_calls s)"
  by (simp add: audit_calls_def)

lemma audit_calls_fs_update [simp]: "audit_calls (s\<lparr>fs := F\<rparr>) = audit_calls s"
  by (simp add: audit_calls_def)

lemma zip_cleanup_audit_calls [simp]:
  "audit_calls (zip_cleanup E W z x s) = audit_calls s"
  by (simp add: zip_cleanup_def Let_def split: option.splits)

lemma zip_name_nonempty: "endswith filename (ascii ''.zip'') \<Longrightarrow> filename \<noteq> []"
  by (auto simp: endswith_def ascii_def)

text \<open>
  Claim C9. For an upload whose name ends in \<open>.zip\<close>, which is saved and extracted without
  error, and none of whose extracted files has an extension of the allow-list (compared in
  lower case, as line 180 does), the batch endpoint answers with no processed files and
  exactly one general error, the message that no supported audio files were found, and
  it never calls \<open>perform_full_audio_audit\<close>: the trace gains no call of the audit.
\<close>

theorem archive_without_audio_is_reported:
  assumes "endswith filename (ascii ''.zip'')"
    and "save_upload_error W (zip_path_of W filename) = None"
    and "os_makedirs_error E (extraction_path_of W) = None"
    and "extract_all W (zip_path_of W filename) (extraction_path_of W) = Extracted listing"
    and "\<forall>(root, files_in_dir) \<in> set listing. \<forall>item_name \<in> set files_in_dir.
           \<not> is_supported_audio item_name"
  shows "fst (upload_zip E g W (Some filename) s)
           = Inr \<lparr>message = ascii ''ZIP file processed with errors.'',
                  processed_files = [],
                  errors = [ascii ''No supported audio files found in the ZIP archive.'']\<rparr>
         \<and> audit_calls (snd (upload_zip E g W (Some filename) s)) = audit_calls s"
  using assms(1,2,3,4) zip_name_nonempty [OF assms(1)]
  by (simp add: upload_zip_def zip_try_def andthen_def save_upload_def os_makedirs_def
        walk_unsupported [OF assms(5)] Let_def)

lemma demo_zip_name: "endswith (ascii ''no_audio.zip'') (ascii ''.zip'')"
  by code_simp

theorem archive_without_audio_is_reported_witness:
  "endswith (ascii ''no_audio.zip'') (ascii ''.zip'')
   \<and> save_upload_error demo_web (zip_path_of demo_web (ascii ''no_audio.zip'')) = None
   \<and> os_makedirs_error demo_env (extraction_path_of demo_web) = None
   \<and> extract_all demo_web (zip_path_of demo_web (ascii ''no_audio.zip''))
        (extraction_path_of demo_web)
       = Extracted [(extraction_path_of demo_web, [ascii ''readme.txt'', ascii ''doc.pdf''])]
   \<and> \<not> is_supported_audio (ascii ''readme.txt'') \<and> \<not> is_supported_audio (ascii ''doc.pdf'')
   \<and> fst (upload_zip demo_env ready demo_web (Some (ascii ''no_audio.zip'')) uploads_state)
       = Inr \<lparr>message = ascii ''ZIP file processed with errors.'',
              processed_files = [],
              errors = [ascii ''No supported audio files found in the ZIP archive.'']\<rparr>
   \<and> audit_calls (snd (upload_zip demo_env ready demo_web (Some (ascii ''no_audio.zip''))
                          uploads_state))
       = audit_calls uploads_state"
proof -
  have saved: "save_upload_error demo_web q = None" for q
    by (simp add: demo_web_def)
  have made: "os_makedirs_error demo_env q = None" for q
    by (simp add: demo_env_def)
  have extracted:
    "extract_all demo_web (zip_path_of demo_web (ascii ''no_audio.zip''))
        (extraction_path_of demo_web)
       = Extracted [(extraction_path_of demo_web, [ascii ''readme.txt'', ascii ''doc.pdf''])]"
    by (simp add: demo_web_def)
  have none: "\<forall>(root, files_in_dir)
                 \<in> set [(extraction_path_of demo_web, [ascii ''readme.txt'', ascii ''doc.pdf''])].
                \<forall>item_name \<in> set files_in_dir. \<not> is_supported_audio item_name"
    by (simp add: supported_examples)
  from archive_without_audio_is_reported
         [where s = uploads_state and g = ready, OF demo_zip_name saved made extracted none]
       demo_zip_name saved made extracted supported_examples
  show ?thesis
    by simp
qed

end
